theory Spec2Isabelle
  imports Complex_Main
begin

section \<open>Arrays\<close>

text \<open>
  The allocator of \<^verbatim>\<open>model.py\<close> computes with two-dimensional numpy arrays. An array is its
  shape together with its rows; numbers are real numbers (the algebra of the program, not
  its rounding). A well-formed array has as many rows as its shape says, each of the
  width its shape says, so that a \<open>0 \<times> n\<close> and an \<open>n \<times> 0\<close> array are different values, as
  in numpy.
\<close>

record ndarray =
  nrows :: nat
  ncols :: nat
  rows :: "real list list"

definition well_formed :: "ndarray \<Rightarrow> bool" where
  "well_formed A \<longleftrightarrow> length (rows A) = nrows A \<and> list_all (\<lambda>r. length r = ncols A) (rows A)"

definition mk :: "nat \<Rightarrow> nat \<Rightarrow> (nat \<Rightarrow> nat \<Rightarrow> real) \<Rightarrow> ndarray" where
  "mk r c f = \<lparr>nrows = r, ncols = c, rows = map (\<lambda>i. map (f i) [0..<c]) [0..<r]\<rparr>"

definition entry :: "ndarray \<Rightarrow> nat \<Rightarrow> nat \<Rightarrow> real" where
  "entry A i j = rows A ! i ! j"

text \<open>
  Every exception the allocator can raise. The first five are the \<^verbatim>\<open>ValueError\<close>s of
  \<^verbatim>\<open>_error_checks\<close>, told apart by their message; \<open>ShapeError\<close> is the \<^verbatim>\<open>ValueError\<close> numpy
  and pandas raise on shapes that do not fit. \<open>KeyError\<close> is the lookup error that the
  specification expects of the pick-matrix builder. \<open>FrameEnlarged\<close> is no exception of
  the program: it marks the places where pandas has enlarged the frame of the pick
  matrix and goes on with a matrix that holds NaN, which the real numbers do not have
  (see \<open>loc_setitem\<close> and \<open>frame_values\<close>).
\<close>

datatype error =
    ViewsPickMismatch
  | UnknownOmegaMethod
  | ConfidencesRequired
  | ConfidenceCountMismatch
  | NegativeConfidence
  | ShapeError
  | TypeError
  | LinAlgError
  | KeyError
  | FrameEnlarged

definition ebind :: "error + 'a \<Rightarrow> ('a \<Rightarrow> error + 'b) \<Rightarrow> error + 'b" where
  "ebind m f = (case m of Inl e \<Rightarrow> Inl e | Inr x \<Rightarrow> f x)"

subsection \<open>numpy operations\<close>

definition zeros :: "nat \<Rightarrow> nat \<Rightarrow> ndarray" where
  "zeros r c = mk r c (\<lambda>i j. 0)"

definition eye :: "nat \<Rightarrow> ndarray" where
  "eye n = mk n n (\<lambda>i j. if i = j then 1 else 0)"

definition transpose_nd :: "ndarray \<Rightarrow> ndarray" where
  "transpose_nd A = mk (ncols A) (nrows A) (\<lambda>i j. entry A j i)"

text \<open>\<^verbatim>\<open>t * A\<close> for a scalar \<open>t\<close>.\<close>

definition scale :: "real \<Rightarrow> ndarray \<Rightarrow> ndarray" where
  "scale t A = mk (nrows A) (ncols A) (\<lambda>i j. t * entry A i j)"

text \<open>\<^verbatim>\<open>A.dot(B)\<close>: the matrix product, a \<^verbatim>\<open>ValueError\<close> when the inner dimensions differ.\<close>

definition dot :: "ndarray \<Rightarrow> ndarray \<Rightarrow> error + ndarray" where
  "dot A B =
     (if ncols A = nrows B
      then Inr (mk (nrows A) (ncols B)
                  (\<lambda>i j. sum_list (map (\<lambda>k. entry A i k * entry B k j) [0..<ncols A])))
      else Inl ShapeError)"

text \<open>
  Elementwise operators broadcast: two extents fit when they are equal or one of them
  is 1, and the operand of extent 1 is repeated along that axis.
\<close>

definition bextent :: "nat \<Rightarrow> nat \<Rightarrow> nat option" where
  "bextent m n = (if m = n then Some m else if m = 1 then Some n
                  else if n = 1 then Some m else None)"

definition bindex :: "nat \<Rightarrow> nat \<Rightarrow> nat" where
  "bindex m i = (if m = 1 then 0 else i)"

definition broadcast :: "(real \<Rightarrow> real \<Rightarrow> real) \<Rightarrow> ndarray \<Rightarrow> ndarray \<Rightarrow> error + ndarray" where
  "broadcast f A B =
     (case (bextent (nrows A) (nrows B), bextent (ncols A) (ncols B)) of
        (Some r, Some c) \<Rightarrow>
          Inr (mk r c (\<lambda>i j. f (entry A (bindex (nrows A) i) (bindex (ncols A) j))
                              (entry B (bindex (nrows B) i) (bindex (ncols B) j))))
      | _ \<Rightarrow> Inl ShapeError)"

definition np_add :: "ndarray \<Rightarrow> ndarray \<Rightarrow> error + ndarray" where
  "np_add = broadcast (+)"

definition np_sub :: "ndarray \<Rightarrow> ndarray \<Rightarrow> error + ndarray" where
  "np_sub = broadcast (-)"

definition np_mul :: "ndarray \<Rightarrow> ndarray \<Rightarrow> error + ndarray" where
  "np_mul = broadcast (*)"

text \<open>
  \<^verbatim>\<open>np.reshape\<close> keeps the elements in row-major order and raises a \<^verbatim>\<open>ValueError\<close> when
  the new shape holds another number of elements.
\<close>

definition reshape_flat :: "real list \<Rightarrow> nat \<Rightarrow> nat \<Rightarrow> error + ndarray" where
  "reshape_flat xs r c =
     (if r * c = length xs then Inr (mk r c (\<lambda>i j. xs ! (i * c + j))) else Inl ShapeError)"

definition reshape :: "ndarray \<Rightarrow> nat \<Rightarrow> nat \<Rightarrow> error + ndarray" where
  "reshape A r c = reshape_flat (concat (rows A)) r c"

text \<open>\<^verbatim>\<open>np.diag\<close> of a two-dimensional array is its main diagonal; of a vector, the square
  array with the vector on the diagonal.\<close>

definition diag_of :: "ndarray \<Rightarrow> real list" where
  "diag_of A = map (\<lambda>i. entry A i i) [0..<min (nrows A) (ncols A)]"

definition diag_matrix :: "real list \<Rightarrow> ndarray" where
  "diag_matrix v = mk (length v) (length v) (\<lambda>i j. if i = j then v ! i else 0)"


text \<open>
  Python's built-in \<^verbatim>\<open>sum\<close> over a two-dimensional array adds up its rows, starting from
  the integer 0: the result holds one total per column.
\<close>

definition py_sum :: "ndarray \<Rightarrow> real list" where
  "py_sum W = map (\<lambda>j. sum_list (map (\<lambda>i. entry W i j) [0..<nrows W])) [0..<ncols W]"

text \<open>
  \<^verbatim>\<open>W /= s\<close> for a vector \<open>s\<close> with one element per column of \<open>W\<close>. Where an element of \<open>s\<close>
  is zero numpy stores inf or nan and goes on; HOL's \<open>x / 0\<close> is \<open>0\<close>, so what is proved
  about a quotient below carries the hypothesis that the divisor is not zero.
\<close>

definition idiv :: "ndarray \<Rightarrow> real list \<Rightarrow> ndarray" where
  "idiv W s = mk (nrows W) (ncols W) (\<lambda>i j. entry W i j / s ! j)"

text \<open>
  \<^verbatim>\<open>numpy.linalg.inv\<close> is a library routine, not code of the repository: the model takes it
  as the parameter \<open>linalg_inv\<close>, which returns \<open>None\<close> where the routine raises on a
  singular matrix. numpy refuses an array that is not square before it inverts.
\<close>

definition np_inv :: "(ndarray \<Rightarrow> ndarray option) \<Rightarrow> ndarray \<Rightarrow> error + ndarray" where
  "np_inv linalg_inv A =
     (if nrows A \<noteq> ncols A then Inl LinAlgError
      else case linalg_inv A of None \<Rightarrow> Inl LinAlgError | Some X \<Rightarrow> Inr X)"

section \<open>The allocator\<close>

text \<open>A value the allocator holds or receives: a bare array, or a pandas frame with its
  row labels (\<open>None\<close> for the default range index), column labels and values.\<close>

datatype table = Array ndarray | DataFrame "string list option" "string list" ndarray

text \<open>The four result fields of \<^verbatim>\<open>BlackLitterman\<close>, all \<^verbatim>\<open>None\<close> after \<^verbatim>\<open>__init__\<close>.\<close>

record BlackLitterman =
  weights :: "table option"
  implied_equilibrium_returns :: "table option"
  posterior_expected_returns :: "table option"
  posterior_covariance :: "table option"

definition init :: BlackLitterman where
  "init = \<lparr>weights = None, implied_equilibrium_returns = None,
           posterior_expected_returns = None, posterior_covariance = None\<rparr>"

text \<open>\<^verbatim>\<open>pd.DataFrame(values, columns=..., index=...)\<close> refuses labels that do not fit the values.\<close>

definition pd_DataFrame :: "string list option \<Rightarrow> string list \<Rightarrow> ndarray \<Rightarrow> error + table" where
  "pd_DataFrame idx cols vals =
     (if length cols \<noteq> ncols vals then Inl ShapeError
      else case idx of
             None \<Rightarrow> Inr (DataFrame None cols vals)
           | Some ix \<Rightarrow> if length ix \<noteq> nrows vals then Inl ShapeError
                        else Inr (DataFrame (Some ix) cols vals))"

subsection \<open>Validation\<close>

fun check_confidences :: "real list \<Rightarrow> error + unit" where
  "check_confidences [] = Inr ()"
| "check_confidences (confidence # rest) =
     (if confidence < 0 then Inl NegativeConfidence else check_confidences rest)"

text \<open>A pick specification is a Python dict from asset names to coefficients, kept as the
  list of its items in order.\<close>

type_synonym pick_dict = "(string \<times> real) list"

definition error_checks ::
  "real list \<Rightarrow> pick_dict list \<Rightarrow> string \<Rightarrow> real list option \<Rightarrow> error + unit" where
  "error_checks investor_views pick_list omega_method view_confidences =
     (if length investor_views \<noteq> length pick_list then Inl ViewsPickMismatch
      else if omega_method \<notin> {''prior_variance'', ''user_confidences''}
      then Inl UnknownOmegaMethod
      else if omega_method = ''user_confidences''
      then (case view_confidences of
              None \<Rightarrow> Inl ConfidencesRequired
            | Some cs \<Rightarrow>
                if length investor_views \<noteq> length cs then Inl ConfidenceCountMismatch
                else check_confidences cs)
      else Inr ())"

subsection \<open>Preprocessing and equilibrium returns\<close>

definition pre_process_inputs ::
  "table \<Rightarrow> real list \<Rightarrow> real list \<Rightarrow> error + (ndarray \<times> ndarray \<times> ndarray)" where
  "pre_process_inputs covariance market_capitalised_weights investor_views =
     ebind (reshape_flat investor_views (length investor_views) 1) (\<lambda>views.
     ebind (reshape_flat market_capitalised_weights (length market_capitalised_weights) 1)
       (\<lambda>mcw.
     Inr (case covariance of DataFrame idx cols vals \<Rightarrow> vals | Array vals \<Rightarrow> vals,
          mcw, views)))"

definition calculate_implied_equilibrium_returns ::
  "real \<Rightarrow> ndarray \<Rightarrow> ndarray \<Rightarrow> error + ndarray" where
  "calculate_implied_equilibrium_returns risk_aversion covariance market_capitalised_weights =
     ebind (dot covariance market_capitalised_weights) (\<lambda>m. Inr (scale risk_aversion m))"

subsection \<open>Pick matrix\<close>

text \<open>
  The frame that \<^verbatim>\<open>_create_pick_matrix\<close> fills: its column labels and its rows of cells. A
  cell that pandas has created and not yet written holds NaN, here \<open>None\<close>. The flag
  tells whether the frame is still the single block of floats it was built as; pandas
  assigns to such a frame as numpy does, and column by column otherwise.
\<close>

record pick_frame =
  single_block :: bool
  columns :: "string list"
  cells :: "real option list list"

text \<open>The positions of the columns that carry a label, and the labels of a pick
  specification that no column carries yet.\<close>

definition positions_of :: "string list \<Rightarrow> string \<Rightarrow> nat list" where
  "positions_of cols a = filter (\<lambda>j. cols ! j = a) [0..<length cols]"

definition missing_labels :: "string list \<Rightarrow> pick_dict \<Rightarrow> string list" where
  "missing_labels cols d = filter (\<lambda>a. a \<notin> set cols) (map fst d)"

definition add_columns :: "string list \<Rightarrow> pick_frame \<Rightarrow> pick_frame" where
  "add_columns new fr =
     fr\<lparr>single_block := single_block fr \<and> new = [],
        columns := columns fr @ new,
        cells := map (\<lambda>row. row @ replicate (length new) None) (cells fr)\<rparr>"

fun assign :: "(nat \<times> real) list \<Rightarrow> real option list \<Rightarrow> real option list" where
  "assign [] row = row"
| "assign ((j, v) # rest) row = assign rest (row[j := Some v])"

text \<open>
  \<^verbatim>\<open>pick_matrix.loc[view_index, assets] = values\<close> is the label-based assignment of pandas
  (version 2), a library that is not in the repository. A label that no column carries
  is no error: pandas first appends one new column for each such label, NaN in every
  row; only a frame with repeated column labels cannot be extended, a \<^verbatim>\<open>ValueError\<close>. It
  then collects, label by label, the positions of all columns that carry the label. As
  many positions as values: each value goes to its position. Otherwise a single value
  is written to every position when the frame is a single block, and any other mismatch
  is a \<^verbatim>\<open>ValueError\<close>. A row index beyond the frame would make pandas add a row filled with
  NaN and go on; \<^verbatim>\<open>allocate\<close> never gets there, its validation having compared the two
  lengths, and the model stops with \<open>FrameEnlarged\<close>.
\<close>

definition loc_setitem :: "nat \<Rightarrow> pick_dict \<Rightarrow> pick_frame \<Rightarrow> error + pick_frame" where
  "loc_setitem view_index pick_dict fr0 =
     (let fr = add_columns (missing_labels (columns fr0) pick_dict) fr0;
          positions = concat (map (positions_of (columns fr)) (map fst pick_dict));
          vals = map snd pick_dict
      in if missing_labels (columns fr0) pick_dict \<noteq> [] \<and> \<not> distinct (columns fr0)
         then Inl ShapeError
         else if length (cells fr) \<le> view_index then Inl FrameEnlarged
         else if length positions = length vals
         then Inr (fr\<lparr>cells := (cells fr)[view_index :=
                       assign (zip positions vals) (cells fr ! view_index)]\<rparr>)
         else if single_block fr \<and> length vals = 1
         then Inr (fr\<lparr>cells := (cells fr)[view_index :=
                       assign (map (\<lambda>j. (j, hd vals)) positions) (cells fr ! view_index)]\<rparr>)
         else Inl ShapeError)"

text \<open>The loop over \<^verbatim>\<open>enumerate(pick_list)\<close>.\<close>

fun loc_loop :: "nat \<Rightarrow> pick_dict list \<Rightarrow> pick_frame \<Rightarrow> error + pick_frame" where
  "loc_loop view_index [] fr = Inr fr"
| "loc_loop view_index (pick_dict # rest) fr =
     (case loc_setitem view_index pick_dict fr of
        Inl e \<Rightarrow> Inl e
      | Inr fr' \<Rightarrow> loc_loop (Suc view_index) rest fr')"

text \<open>\<^verbatim>\<open>pick_matrix.values\<close>: the cells as an array, with a column for every label of the
  frame. A frame that still holds NaN is where the model stops.\<close>

definition frame_values :: "pick_frame \<Rightarrow> error + ndarray" where
  "frame_values fr =
     (case those (map those (cells fr)) of
        None \<Rightarrow> Inl FrameEnlarged
      | Some vals \<Rightarrow>
          Inr \<lparr>nrows = length (cells fr), ncols = length (columns fr), rows = vals\<rparr>)"

definition create_pick_matrix ::
  "nat \<Rightarrow> nat \<Rightarrow> pick_dict list \<Rightarrow> string list \<Rightarrow> error + ndarray" where
  "create_pick_matrix num_views num_assets pick_list asset_names =
     (if length asset_names \<noteq> num_assets then Inl ShapeError
      else ebind (loc_loop 0 pick_list
                    \<lparr>single_block = True, columns = asset_names,
                     cells = map (map Some) (rows (zeros num_views num_assets))\<rparr>)
             frame_values)"

subsection \<open>Omega\<close>

definition calculate_idzorek_omega ::
  "ndarray \<Rightarrow> real list option \<Rightarrow> ndarray \<Rightarrow> error + ndarray" where
  "calculate_idzorek_omega covariance view_confidences pick_matrix =
     ebind (case view_confidences of
              None \<Rightarrow> if nrows covariance = 1 then Inl TypeError else Inl ShapeError
            | Some cs \<Rightarrow> reshape_flat cs 1 (nrows covariance)) (\<lambda>confidences.
     let alpha = mk (nrows confidences) (ncols confidences)
                   (\<lambda>i j. (1 - entry confidences i j) / entry confidences i j)
     in ebind (dot pick_matrix covariance) (\<lambda>pc.
        ebind (dot pc (transpose_nd pick_matrix)) (\<lambda>pcp.
        np_mul alpha pcp)))"

definition calculate_omega ::
  "ndarray \<Rightarrow> real \<Rightarrow> ndarray \<Rightarrow> real list option \<Rightarrow> string \<Rightarrow> error + ndarray" where
  "calculate_omega covariance tau pick_matrix view_confidences omega_method =
     ebind (if omega_method = ''prior_variance''
            then ebind (dot (scale tau covariance) (transpose_nd pick_matrix))
                   (\<lambda>cp. dot pick_matrix cp)
            else calculate_idzorek_omega covariance view_confidences pick_matrix)
       (\<lambda>omega. Inr (diag_matrix (diag_of omega)))"

subsection \<open>Posterior estimates and weights\<close>

text \<open>
  The method reads \<^verbatim>\<open>self.implied_equilibrium_returns\<close>, which \<^verbatim>\<open>allocate\<close> has assigned
  just before; here it is the argument \<open>implied\<close>. The operations come in Python's order
  of evaluation, and \<^verbatim>\<open>reshape(1, -1)\<close> makes one row of all the elements.
\<close>

definition calculate_posterior_expected_returns ::
  "(ndarray \<Rightarrow> ndarray option) \<Rightarrow> ndarray \<Rightarrow> ndarray \<Rightarrow> real \<Rightarrow> ndarray \<Rightarrow> ndarray \<Rightarrow> ndarray
     \<Rightarrow> error + ndarray" where
  "calculate_posterior_expected_returns linalg_inv implied covariance tau pick_matrix omega
       investor_views =
     ebind (dot (scale tau covariance) (transpose_nd pick_matrix)) (\<lambda>cp.
     ebind (dot pick_matrix (scale tau covariance)) (\<lambda>pc.
     ebind (dot pc (transpose_nd pick_matrix)) (\<lambda>pcp.
     ebind (np_add pcp omega) (\<lambda>m.
     ebind (np_inv linalg_inv m) (\<lambda>mi.
     ebind (dot pick_matrix implied) (\<lambda>ppi.
     ebind (np_sub investor_views ppi) (\<lambda>d.
     ebind (dot mi d) (\<lambda>u.
     ebind (dot cp u) (\<lambda>v.
     ebind (np_add implied v) (\<lambda>posterior.
     reshape posterior 1 (length (concat (rows posterior)))))))))))))"

definition calculate_posterior_covariance ::
  "(ndarray \<Rightarrow> ndarray option) \<Rightarrow> ndarray \<Rightarrow> real \<Rightarrow> ndarray \<Rightarrow> ndarray \<Rightarrow> error + ndarray" where
  "calculate_posterior_covariance linalg_inv covariance tau pick_matrix omega =
     ebind (np_add covariance (scale tau covariance)) (\<lambda>inflated.
     ebind (dot (scale tau covariance) (transpose_nd pick_matrix)) (\<lambda>cp.
     ebind (dot pick_matrix (scale tau covariance)) (\<lambda>pc.
     ebind (dot pc (transpose_nd pick_matrix)) (\<lambda>pcp.
     ebind (np_add pcp omega) (\<lambda>m.
     ebind (np_inv linalg_inv m) (\<lambda>mi.
     ebind (dot cp mi) (\<lambda>u.
     ebind (dot u pick_matrix) (\<lambda>v.
     ebind (dot v (scale tau covariance)) (\<lambda>w.
     np_sub inflated w)))))))))"

text \<open>The method reads the two posterior fields, here its second and third argument.\<close>

definition calculate_max_sharpe_weights ::
  "(ndarray \<Rightarrow> ndarray option) \<Rightarrow> ndarray \<Rightarrow> ndarray \<Rightarrow> error + ndarray" where
  "calculate_max_sharpe_weights linalg_inv posterior_cov posterior_returns =
     ebind (np_inv linalg_inv posterior_cov) (\<lambda>ci.
     ebind (dot ci (transpose_nd posterior_returns)) (\<lambda>raw.
     Inr (idiv raw (py_sum raw))))"

subsection \<open>Packaging and the whole run\<close>

text \<open>
  \<^verbatim>\<open>_post_processing\<close> assigns the four fields one after the other, so a failure leaves
  the earlier ones relabelled. It runs on fields that hold arrays; \<^verbatim>\<open>allocate\<close> has
  assigned all four when it calls it, and for any other content of the fields the
  model stops with \<open>TypeError\<close>.
\<close>

definition post_processing :: "BlackLitterman \<Rightarrow> string list \<Rightarrow> BlackLitterman \<times> error option" where
  "post_processing self asset_names =
     (case (weights self, implied_equilibrium_returns self,
            posterior_expected_returns self, posterior_covariance self) of
        (Some (Array w), Some (Array implied), Some (Array returns), Some (Array cov)) \<Rightarrow>
          let s1 = self\<lparr>weights := Some (Array (transpose_nd w))\<rparr> in
          (case pd_DataFrame None asset_names (transpose_nd w) of
             Inl e \<Rightarrow> (s1, Some e)
           | Inr wframe \<Rightarrow>
          let s2 = s1\<lparr>weights := Some wframe\<rparr> in
          (case pd_DataFrame None asset_names (transpose_nd implied) of
             Inl e \<Rightarrow> (s2, Some e)
           | Inr imf \<Rightarrow>
          let s3 = s2\<lparr>implied_equilibrium_returns := Some imf\<rparr> in
          (case pd_DataFrame None asset_names returns of
             Inl e \<Rightarrow> (s3, Some e)
           | Inr rf \<Rightarrow>
          let s4 = s3\<lparr>posterior_expected_returns := Some rf\<rparr> in
          (case pd_DataFrame (Some asset_names) asset_names cov of
             Inl e \<Rightarrow> (s4, Some e)
           | Inr cf \<Rightarrow> (s4\<lparr>posterior_covariance := Some cf\<rparr>, None)))))
      | _ \<Rightarrow> (self, Some TypeError))"

text \<open>\<^verbatim>\<open>str\<close> of a non-negative integer, for the default asset names.\<close>

fun str :: "nat \<Rightarrow> string" where
  "str n = (if n < 10 then [char_of (48 + n)] else str (n div 10) @ [char_of (48 + n mod 10)])"

definition default_asset_names :: "table \<Rightarrow> nat \<Rightarrow> string list" where
  "default_asset_names covariance num_assets =
     (case covariance of
        DataFrame idx cols vals \<Rightarrow> cols
      | Array vals \<Rightarrow> map str [0..<num_assets])"

text \<open>
  \<^verbatim>\<open>allocate\<close> returns the instance as the call leaves it, together with the exception
  raised, if any. \<^verbatim>\<open>print(pick_matrix)\<close> changes nothing and is left out.
\<close>

definition allocate ::
  "(ndarray \<Rightarrow> ndarray option) \<Rightarrow> BlackLitterman \<Rightarrow> table \<Rightarrow> real list \<Rightarrow> real list
     \<Rightarrow> pick_dict list \<Rightarrow> ndarray option \<Rightarrow> real \<Rightarrow> real \<Rightarrow> string \<Rightarrow> real list option
     \<Rightarrow> string list option \<Rightarrow> BlackLitterman \<times> error option" where
  "allocate linalg_inv self covariance market_capitalised_weights investor_views pick_list
       omega risk_aversion tau omega_method view_confidences asset_names =
     (case error_checks investor_views pick_list omega_method view_confidences of
        Inl e \<Rightarrow> (self, Some e)
      | Inr _ \<Rightarrow>
     let num_assets = length market_capitalised_weights;
         num_views = length investor_views;
         names = (case asset_names of
                    None \<Rightarrow> default_asset_names covariance num_assets
                  | Some given \<Rightarrow> given)
     in
     (case pre_process_inputs covariance market_capitalised_weights investor_views of
        Inl e \<Rightarrow> (self, Some e)
      | Inr (cov, mcw, views) \<Rightarrow>
     (case calculate_implied_equilibrium_returns risk_aversion cov mcw of
        Inl e \<Rightarrow> (self, Some e)
      | Inr implied \<Rightarrow>
     let s1 = self\<lparr>implied_equilibrium_returns := Some (Array implied)\<rparr> in
     (case create_pick_matrix num_views num_assets pick_list names of
        Inl e \<Rightarrow> (s1, Some e)
      | Inr pick_matrix \<Rightarrow>
     (case ebind (case omega of
                    None \<Rightarrow> calculate_omega cov tau pick_matrix view_confidences omega_method
                  | Some given \<Rightarrow> Inr given)
             (\<lambda>om. reshape om num_views num_views) of
        Inl e \<Rightarrow> (s1, Some e)
      | Inr om \<Rightarrow>
     (case calculate_posterior_expected_returns linalg_inv implied cov tau pick_matrix om
             views of
        Inl e \<Rightarrow> (s1, Some e)
      | Inr returns \<Rightarrow>
     let s2 = s1\<lparr>posterior_expected_returns := Some (Array returns)\<rparr> in
     (case calculate_posterior_covariance linalg_inv cov tau pick_matrix om of
        Inl e \<Rightarrow> (s2, Some e)
      | Inr pcov \<Rightarrow>
     let s3 = s2\<lparr>posterior_covariance := Some (Array pcov)\<rparr> in
     (case calculate_max_sharpe_weights linalg_inv pcov returns of
        Inl e \<Rightarrow> (s3, Some e)
      | Inr w \<Rightarrow> post_processing (s3\<lparr>weights := Some (Array w)\<rparr>) names))))))))"

section \<open>A reference inversion routine\<close>

text \<open>
  Gauss-Jordan elimination on the rows of \<open>[A | I]\<close>, to run the allocator on concrete
  inputs: \<open>None\<close> when no pivot is found for a column, as \<^verbatim>\<open>numpy.linalg.inv\<close> raises on a
  singular matrix.
\<close>

definition pivot_row :: "real list list \<Rightarrow> nat \<Rightarrow> nat option" where
  "pivot_row M k = List.find (\<lambda>p. M ! p ! k \<noteq> 0) [k..<length M]"

definition eliminate :: "real list list \<Rightarrow> nat \<Rightarrow> real list list" where
  "eliminate M k =
     (let r = map (\<lambda>x. x / (M ! k ! k)) (M ! k)
      in map (\<lambda>i. if i = k then r else map2 (\<lambda>x y. x - (M ! i ! k) * y) (M ! i) r)
           [0..<length M])"

fun gauss_jordan :: "nat \<Rightarrow> nat \<Rightarrow> real list list \<Rightarrow> real list list option" where
  "gauss_jordan k 0 M = Some M"
| "gauss_jordan k (Suc todo) M =
     (case pivot_row M k of
        None \<Rightarrow> None
      | Some p \<Rightarrow> gauss_jordan (Suc k) todo (eliminate (M[k := M ! p, p := M ! k]) k))"

definition gauss_jordan_inv :: "ndarray \<Rightarrow> ndarray option" where
  "gauss_jordan_inv A =
     map_option (\<lambda>M. \<lparr>nrows = nrows A, ncols = nrows A, rows = map (drop (nrows A)) M\<rparr>)
       (gauss_jordan 0 (nrows A) (map2 (@) (rows A) (rows (eye (nrows A)))))"

section \<open>The formulas of the specification\<close>

text \<open>
  The specification speaks of matrices and vectors, not of arrays: here a matrix is
  the function from its indices to its entries, its dimensions are given where they
  matter, and there is neither shape error nor broadcasting.
\<close>

type_synonym matrix = "nat \<Rightarrow> nat \<Rightarrow> real"

definition m_mul :: "nat \<Rightarrow> matrix \<Rightarrow> matrix \<Rightarrow> matrix" where
  "m_mul n A B = (\<lambda>i j. \<Sum>k<n. A i k * B k j)"

definition m_scale :: "real \<Rightarrow> matrix \<Rightarrow> matrix" where
  "m_scale t A = (\<lambda>i j. t * A i j)"

definition m_transpose :: "matrix \<Rightarrow> matrix" where
  "m_transpose A = (\<lambda>i j. A j i)"

definition m_add :: "matrix \<Rightarrow> matrix \<Rightarrow> matrix" where
  "m_add A B = (\<lambda>i j. A i j + B i j)"

definition m_sub :: "matrix \<Rightarrow> matrix \<Rightarrow> matrix" where
  "m_sub A B = (\<lambda>i j. A i j - B i j)"

text \<open>\<open>X\<close> is the inverse of the square array \<open>A\<close>.\<close>

definition inverse_pair :: "ndarray \<Rightarrow> ndarray \<Rightarrow> bool" where
  "inverse_pair A X \<longleftrightarrow>
     well_formed X \<and> nrows A = ncols A \<and> nrows X = nrows A \<and> ncols X = nrows A \<and>
     dot X A = Inr (eye (nrows A)) \<and> dot A X = Inr (eye (nrows A))"

text \<open>\<open>P(\<tau>\<Sigma>)P\<^sup>t + \<Omega>\<close>, the \<open>K \<times> K\<close> matrix that both posterior formulas invert.\<close>

definition view_matrix :: "nat \<Rightarrow> real \<Rightarrow> matrix \<Rightarrow> matrix \<Rightarrow> matrix \<Rightarrow> matrix" where
  "view_matrix N tau S P Om = m_add (m_mul N (m_mul N P (m_scale tau S)) (m_transpose P)) Om"

text \<open>\<open>\<pi> + (\<tau>\<Sigma>)P\<^sup>t [P(\<tau>\<Sigma>)P\<^sup>t + \<Omega>]\<^sup>-\<^sup>1 (Q - P\<pi>)\<close>, a column; \<open>Minv\<close> is the inverse in brackets.\<close>

definition spec_posterior_returns ::
  "nat \<Rightarrow> nat \<Rightarrow> real \<Rightarrow> matrix \<Rightarrow> matrix \<Rightarrow> matrix \<Rightarrow> matrix \<Rightarrow> matrix \<Rightarrow> matrix" where
  "spec_posterior_returns N K tau S P Minv Q implied =
     m_add implied
       (m_mul K (m_mul K (m_mul N (m_scale tau S) (m_transpose P)) Minv)
          (m_sub Q (m_mul N P implied)))"

text \<open>\<open>\<Sigma> + \<tau>\<Sigma> - (\<tau>\<Sigma>)P\<^sup>t [P(\<tau>\<Sigma>)P\<^sup>t + \<Omega>]\<^sup>-\<^sup>1 P(\<tau>\<Sigma>)\<close>.\<close>

definition spec_posterior_covariance ::
  "nat \<Rightarrow> nat \<Rightarrow> real \<Rightarrow> matrix \<Rightarrow> matrix \<Rightarrow> matrix \<Rightarrow> matrix" where
  "spec_posterior_covariance N K tau S P Minv =
     m_sub (m_add S (m_scale tau S))
       (m_mul K (m_mul K (m_mul N (m_scale tau S) (m_transpose P)) Minv)
          (m_mul N P (m_scale tau S)))"

text \<open>\<open>raw = \<Sigma>\<^sub>p\<^sub>o\<^sub>s\<^sub>t\<^sup>-\<^sup>1 \<cdot> \<pi>\<^sub>p\<^sub>o\<^sub>s\<^sub>t\<^sup>t\<close> and \<open>weights = raw / sum(raw)\<close>; the returns are a row.\<close>

definition raw_weights :: "nat \<Rightarrow> matrix \<Rightarrow> matrix \<Rightarrow> matrix" where
  "raw_weights N Cinv returns = m_mul N Cinv (m_transpose returns)"

definition spec_weights :: "nat \<Rightarrow> matrix \<Rightarrow> matrix \<Rightarrow> matrix" where
  "spec_weights N Cinv returns =
     (\<lambda>i j. raw_weights N Cinv returns i 0 / (\<Sum>l<N. raw_weights N Cinv returns l 0))"

text \<open>Positive semi-definite: no vector has a negative quadratic form.\<close>

definition psd :: "nat \<Rightarrow> matrix \<Rightarrow> bool" where
  "psd N S \<longleftrightarrow> (\<forall>x. 0 \<le> (\<Sum>a<N. \<Sum>b<N. x a * S a b * x b))"

definition m_diag :: "matrix \<Rightarrow> matrix" where
  "m_diag A = (\<lambda>i j. if i = j then A i j else 0)"

text \<open>\<open>diag(P \<cdot> (\<tau>\<Sigma>) \<cdot> P\<^sup>t)\<close>.\<close>

definition spec_prior_omega :: "nat \<Rightarrow> real \<Rightarrow> matrix \<Rightarrow> matrix \<Rightarrow> matrix" where
  "spec_prior_omega N tau S P =
     m_diag (m_mul N (m_mul N P (m_scale tau S)) (m_transpose P))"

text \<open>\<open>diag(\<alpha> \<cdot> P \<cdot> \<Sigma> \<cdot> P\<^sup>t)\<close> with \<open>\<alpha>\<^sub>k = (1 - c\<^sub>k) / c\<^sub>k\<close>.\<close>

definition spec_idzorek_omega :: "nat \<Rightarrow> matrix \<Rightarrow> matrix \<Rightarrow> real list \<Rightarrow> matrix" where
  "spec_idzorek_omega N S P cs =
     m_diag (\<lambda>k j. (1 - cs ! k) / cs ! k * m_mul N (m_mul N P S) (m_transpose P) k j)"



text \<open>The values a field holds, whatever its labels, and the same in row-major order.\<close>

fun table_values :: "table \<Rightarrow> ndarray" where
  "table_values (Array vals) = vals"
| "table_values (DataFrame idx cols vals) = vals"

definition flat_values :: "table \<Rightarrow> real list" where
  "flat_values t = concat (rows (table_values t))"

text \<open>A pandas frame carries one label per column and, when it has row labels, one per row.\<close>

fun frame_ok :: "table \<Rightarrow> bool" where
  "frame_ok (Array vals) = True"
| "frame_ok (DataFrame idx cols vals) =
     (length cols = ncols vals \<and> (case idx of None \<Rightarrow> True | Some ix \<Rightarrow> length ix = nrows vals))"

text \<open>The configuration errors of the specification, and the inputs that have one.\<close>

definition configuration_error :: "error \<Rightarrow> bool" where
  "configuration_error e \<longleftrightarrow>
     e \<in> {ViewsPickMismatch, UnknownOmegaMethod, ConfidencesRequired,
          ConfidenceCountMismatch, NegativeConfidence}"

definition misconfigured ::
  "real list \<Rightarrow> pick_dict list \<Rightarrow> string \<Rightarrow> real list option \<Rightarrow> bool" where
  "misconfigured investor_views pick_list omega_method view_confidences \<longleftrightarrow>
     length investor_views \<noteq> length pick_list \<or>
     (omega_method \<noteq> ''prior_variance'' \<and> omega_method \<noteq> ''user_confidences'') \<or>
     (omega_method = ''user_confidences'' \<and>
        (case view_confidences of
           None \<Rightarrow> True
         | Some cs \<Rightarrow> length cs \<noteq> length investor_views \<or> list_ex (\<lambda>c. c < 0) cs))"

text \<open>A computation that raises no configuration error.\<close>

definition runtime_only :: "error + 'a \<Rightarrow> bool" where
  "runtime_only m \<longleftrightarrow> (\<forall>e. m = Inl e \<longrightarrow> \<not> configuration_error e)"

section \<open>A small run\<close>

text \<open>Two assets and one view, the first asset against the second, for running the
  definitions on numbers.\<close>

definition ex_cov :: ndarray where
  "ex_cov = \<lparr>nrows = 2, ncols = 2, rows = [[2, 1], [1, 3]]\<rparr>"

definition ex_pick :: ndarray where
  "ex_pick = \<lparr>nrows = 1, ncols = 2, rows = [[1, - 1]]\<rparr>"

definition ex_names :: "string list" where
  "ex_names = [''0'', ''1'']"

definition ex_pick_list :: "pick_dict list" where
  "ex_pick_list = [[(''0'', 1), (''1'', - 1)]]"

definition ex_unknown_pick_list :: "pick_dict list" where
  "ex_unknown_pick_list = [[(''0'', 1), (''x'', - 1)]]"

definition ex_omega :: ndarray where
  "ex_omega = \<lparr>nrows = 1, ncols = 1, rows = [[3 / 2]]\<rparr>"

definition ex_views :: ndarray where
  "ex_views = \<lparr>nrows = 1, ncols = 1, rows = [[1 / 10]]\<rparr>"

definition ex_returns :: ndarray where
  "ex_returns = \<lparr>nrows = 1, ncols = 2, rows = [[3, 4]]\<rparr>"

definition ex_implied :: ndarray where
  "ex_implied = \<lparr>nrows = 2, ncols = 1, rows = [[3], [4]]\<rparr>"

text \<open>An instance that holds the results of an earlier run.\<close>

definition ex_earlier :: BlackLitterman where
  "ex_earlier =
     \<lparr>weights = Some (DataFrame None ex_names \<lparr>nrows = 1, ncols = 2, rows = [[1 / 2, 1 / 2]]\<rparr>),
      implied_equilibrium_returns = Some (DataFrame None ex_names ex_returns),
      posterior_expected_returns = Some (DataFrame None ex_names ex_returns),
      posterior_covariance = Some (DataFrame (Some ex_names) ex_names ex_cov)\<rparr>"

section \<open>Facts about arrays\<close>

lemma nrows_mk [simp]: "nrows (mk r c f) = r"
  by (simp add: mk_def)

lemma ncols_mk [simp]: "ncols (mk r c f) = c"
  by (simp add: mk_def)

lemma entry_mk [simp]: "i < r \<Longrightarrow> j < c \<Longrightarrow> entry (mk r c f) i j = f i j"
  by (simp add: mk_def entry_def)

lemma well_formed_mk [simp]: "well_formed (mk r c f)"
  by (simp add: well_formed_def mk_def list_all_iff)

lemma mk_cong: "(\<And>i j. i < r \<Longrightarrow> j < c \<Longrightarrow> f i j = g i j) \<Longrightarrow> mk r c f = mk r c g"
  by (simp add: mk_def)

text \<open>A well-formed array is determined by its shape and its entries.\<close>

lemma mk_entry: "well_formed A \<Longrightarrow> mk (nrows A) (ncols A) (entry A) = A"
proof -
  assume wf: "well_formed A"
  have "map (\<lambda>i. map (\<lambda>j. rows A ! i ! j) [0..<ncols A]) [0..<nrows A] = rows A"
  proof (rule nth_equalityI)
    show "length (map (\<lambda>i. map (\<lambda>j. rows A ! i ! j) [0..<ncols A]) [0..<nrows A])
          = length (rows A)"
      using wf by (simp add: well_formed_def)
  next
    fix i
    assume "i < length (map (\<lambda>i. map (\<lambda>j. rows A ! i ! j) [0..<ncols A]) [0..<nrows A])"
    then have i: "i < nrows A"
      by simp
    then have "length (rows A ! i) = ncols A"
      using wf by (simp add: well_formed_def list_all_length)
    then have "map (\<lambda>j. rows A ! i ! j) [0..<ncols A] = rows A ! i"
      by (metis map_nth)
    then show "map (\<lambda>i. map (\<lambda>j. rows A ! i ! j) [0..<ncols A]) [0..<nrows A] ! i
               = rows A ! i"
      using i by simp
  qed
  moreover have "entry A = (\<lambda>i j. rows A ! i ! j)"
    by (intro ext) (simp add: entry_def)
  ultimately show ?thesis
    by (simp add: mk_def)
qed

lemma mk_entry_shape:
  "well_formed A \<Longrightarrow> nrows A = r \<Longrightarrow> ncols A = c \<Longrightarrow> mk r c (entry A) = A"
  using mk_entry by blast

lemma sum_list_upt: "sum_list (map f [0..<n]) = (\<Sum>k<n. f k)"
  by (induction n) simp_all

lemma ebind_Inr [simp]: "ebind (Inr x) f = f x"
  by (simp add: ebind_def)

lemma ebind_Inl [simp]: "ebind (Inl e) f = Inl e"
  by (simp add: ebind_def)

lemma dot_mk: "dot (mk r n f) (mk n c g) = Inr (mk r c (m_mul n f g))"
  by (auto simp: dot_def m_mul_def sum_list_upt intro!: mk_cong sum.cong)

lemma transpose_mk: "transpose_nd (mk r c f) = mk c r (m_transpose f)"
  by (auto simp: transpose_nd_def m_transpose_def intro!: mk_cong)

lemma scale_mk: "scale t (mk r c f) = mk r c (m_scale t f)"
  by (auto simp: scale_def m_scale_def intro!: mk_cong)

lemma broadcast_mk:
  "broadcast h (mk r c f) (mk r c g) = Inr (mk r c (\<lambda>i j. h (f i j) (g i j)))"
  by (auto simp: broadcast_def bextent_def bindex_def intro!: mk_cong)

lemma np_add_mk: "np_add (mk r c f) (mk r c g) = Inr (mk r c (m_add f g))"
  by (simp add: np_add_def broadcast_mk m_add_def)

lemma np_sub_mk: "np_sub (mk r c f) (mk r c g) = Inr (mk r c (m_sub f g))"
  by (simp add: np_sub_def broadcast_mk m_sub_def)

lemma m_mul_assoc: "m_mul m (m_mul n A B) C i j = m_mul n A (m_mul m B C) i j"
proof -
  have "(\<Sum>l<m. (\<Sum>k<n. A i k * B k l) * C l j) = (\<Sum>l<m. \<Sum>k<n. A i k * (B k l * C l j))"
    by (simp add: sum_distrib_right mult.assoc)
  also have "\<dots> = (\<Sum>k<n. \<Sum>l<m. A i k * (B k l * C l j))"
    by (rule sum.swap)
  also have "\<dots> = (\<Sum>k<n. A i k * (\<Sum>l<m. B k l * C l j))"
    by (simp add: sum_distrib_left)
  finally show ?thesis
    by (simp add: m_mul_def)
qed

lemma concat_rows_column: "concat (rows (mk n (Suc 0) f)) = map (\<lambda>i. f i 0) [0..<n]"
  by (induction n) (simp_all add: mk_def)

lemma reshape_column_to_row:
  "reshape (mk n (Suc 0) f) (Suc 0) (length (concat (rows (mk n (Suc 0) f))))
   = Inr (mk (Suc 0) n (\<lambda>i j. f j 0))"
  by (auto simp: reshape_def reshape_flat_def concat_rows_column intro!: mk_cong)

section \<open>Posterior expected returns\<close>

lemma posterior_returns_mk:
  assumes "linalg_inv (mk K K (view_matrix N tau S P Om)) = Some (mk K K X)"
  shows "calculate_posterior_expected_returns linalg_inv (mk N 1 implied) (mk N N S) tau
           (mk K N P) (mk K K Om) (mk K 1 Q)
         = Inr (mk 1 N (\<lambda>i j. spec_posterior_returns N K tau S P X Q implied j 0))"
proof -
  have "m_mul K (m_mul N (m_scale tau S) (m_transpose P))
          (m_mul K X (m_sub Q (m_mul N P implied))) j 0
      = m_mul K (m_mul K (m_mul N (m_scale tau S) (m_transpose P)) X)
          (m_sub Q (m_mul N P implied)) j 0" for j
    by (simp add: m_mul_assoc)
  then have "mk (Suc 0) N (\<lambda>i j. m_add implied
                 (m_mul K (m_mul N (m_scale tau S) (m_transpose P))
                    (m_mul K X (m_sub Q (m_mul N P implied)))) j 0)
      = mk (Suc 0) N (\<lambda>i j. spec_posterior_returns N K tau S P X Q implied j 0)"
    by (intro mk_cong) (simp add: spec_posterior_returns_def m_add_def)
  then show ?thesis
    using assms
    by (simp add: calculate_posterior_expected_returns_def scale_mk transpose_mk dot_mk
        np_add_mk np_sub_mk np_inv_def reshape_column_to_row view_matrix_def)
qed

text \<open>
  C1. For a covariance \<open>\<Sigma>\<close> (\<open>N \<times> N\<close>), \<open>\<tau> > 0\<close>, a pick matrix \<open>P\<close> (\<open>K \<times> N\<close>), an omega
  \<open>\<Omega>\<close> (\<open>K \<times> K\<close>), views \<open>Q\<close> and implied equilibrium returns \<open>\<pi>\<close> (columns), if
  \<open>P(\<tau>\<Sigma>)P\<^sup>t + \<Omega>\<close> is invertible and the inversion routine returns its inverse, then
  \<^verbatim>\<open>_calculate_posterior_expected_returns\<close> returns, as one row, the vector
  \<open>\<pi> + (\<tau>\<Sigma>)P\<^sup>t [P(\<tau>\<Sigma>)P\<^sup>t + \<Omega>]\<^sup>-\<^sup>1 (Q - P\<pi>)\<close>.
\<close>

theorem posterior_expected_returns_formula:
  assumes "well_formed cov" "nrows cov = N" "ncols cov = N"
    and "well_formed P" "nrows P = K" "ncols P = N"
    and "well_formed omega" "nrows omega = K" "ncols omega = K"
    and "well_formed Q" "nrows Q = K" "ncols Q = 1"
    and "well_formed implied" "nrows implied = N" "ncols implied = 1"
    and "0 < tau"
    and "M = mk K K (view_matrix N tau (entry cov) (entry P) (entry omega))"
    and "inverse_pair M X" "linalg_inv M = Some X"
  shows "calculate_posterior_expected_returns linalg_inv implied cov tau P omega Q
         = Inr (mk 1 N (\<lambda>i j. spec_posterior_returns N K tau (entry cov) (entry P) (entry X)
                                 (entry Q) (entry implied) j 0))"
proof -
  have X: "mk K K (entry X) = X"
    using assms(17,18) mk_entry [of X] by (simp add: inverse_pair_def)
  have "mk N N (entry cov) = cov" "mk K N (entry P) = P" "mk K K (entry omega) = omega"
    "mk K 1 (entry Q) = Q" "mk N 1 (entry implied) = implied"
    using assms(1-15) by (simp_all add: mk_entry_shape)
  then show ?thesis
    using posterior_returns_mk [of linalg_inv K N tau "entry cov" "entry P" "entry omega"
        "entry X" "entry implied" "entry Q"] assms(17,19) X
    by simp
qed

theorem posterior_expected_returns_formula_witness:
  "calculate_posterior_expected_returns gauss_jordan_inv ex_implied ex_cov (1 / 2) ex_pick
     ex_omega ex_views
   = Inr \<lparr>nrows = 1, ncols = 2, rows = [[191 / 60, 109 / 30]]\<rparr>"
proof -
  define M where "M = mk 1 1 (view_matrix 2 (1 / 2) (entry ex_cov) (entry ex_pick) (entry ex_omega))"
  define X where "X = \<lparr>nrows = 1, ncols = 1, rows = [[1 / 3 :: real]]\<rparr>"
  have M: "M = \<lparr>nrows = 1, ncols = 1, rows = [[3]]\<rparr>"
    unfolding M_def by code_simp
  have inv: "inverse_pair M X" "gauss_jordan_inv M = Some X"
    unfolding M X_def by code_simp+
  have "calculate_posterior_expected_returns gauss_jordan_inv ex_implied ex_cov (1 / 2) ex_pick
          ex_omega ex_views
        = Inr (mk 1 2 (\<lambda>i j. spec_posterior_returns 2 1 (1 / 2) (entry ex_cov) (entry ex_pick)
                               (entry X) (entry ex_views) (entry ex_implied) j 0))"
  proof (rule posterior_expected_returns_formula [where K = 1 and M = M and X = X])
    show "M = mk 1 1 (view_matrix 2 (1 / 2) (entry ex_cov) (entry ex_pick) (entry ex_omega))"
      by (fact M_def)
    show "inverse_pair M X" "gauss_jordan_inv M = Some X"
      by (fact inv)+
    show "well_formed ex_cov" "well_formed ex_pick" "well_formed ex_omega" "well_formed ex_views"
      "well_formed ex_implied"
      by code_simp+
    show "nrows ex_cov = 2" "ncols ex_cov = 2" "nrows ex_pick = 1" "ncols ex_pick = 2"
      "nrows ex_omega = 1" "ncols ex_omega = 1" "nrows ex_views = 1" "ncols ex_views = 1"
      "nrows ex_implied = 2" "ncols ex_implied = 1"
      by (simp_all add: ex_cov_def ex_pick_def ex_omega_def ex_views_def ex_implied_def)
    show "(0::real) < 1 / 2"
      by simp
  qed
  also have "mk 1 2 (\<lambda>i j. spec_posterior_returns 2 1 (1 / 2) (entry ex_cov) (entry ex_pick)
                               (entry X) (entry ex_views) (entry ex_implied) j 0)
             = \<lparr>nrows = 1, ncols = 2, rows = [[191 / 60, 109 / 30]]\<rparr>"
    unfolding X_def by code_simp
  finally show ?thesis .
qed

section \<open>Posterior covariance\<close>

lemma posterior_covariance_mk:
  assumes "linalg_inv (mk K K (view_matrix N tau S P Om)) = Some (mk K K X)"
  shows "calculate_posterior_covariance linalg_inv (mk N N S) tau (mk K N P) (mk K K Om)
         = Inr (mk N N (spec_posterior_covariance N K tau S P X))"
proof -
  have "m_mul N (m_mul K (m_mul K (m_mul N (m_scale tau S) (m_transpose P)) X) P)
          (m_scale tau S) i j
      = m_mul K (m_mul K (m_mul N (m_scale tau S) (m_transpose P)) X)
          (m_mul N P (m_scale tau S)) i j" for i j
    by (simp add: m_mul_assoc)
  then have "mk N N (m_sub (m_add S (m_scale tau S))
               (m_mul N (m_mul K (m_mul K (m_mul N (m_scale tau S) (m_transpose P)) X) P)
                  (m_scale tau S)))
      = mk N N (spec_posterior_covariance N K tau S P X)"
    by (intro mk_cong) (simp add: spec_posterior_covariance_def m_sub_def)
  then show ?thesis
    using assms
    by (simp add: calculate_posterior_covariance_def scale_mk transpose_mk dot_mk
        np_add_mk np_sub_mk np_inv_def view_matrix_def)
qed

text \<open>
  C2. For a covariance \<open>\<Sigma>\<close> (\<open>N \<times> N\<close>), \<open>\<tau> > 0\<close>, a pick matrix \<open>P\<close> (\<open>K \<times> N\<close>) and an omega
  \<open>\<Omega>\<close> (\<open>K \<times> K\<close>) such that \<open>P(\<tau>\<Sigma>)P\<^sup>t + \<Omega>\<close> is invertible, with the inversion routine
  returning its inverse, \<^verbatim>\<open>_calculate_posterior_covariance\<close> returns
  \<open>\<Sigma> + \<tau>\<Sigma> - (\<tau>\<Sigma>)P\<^sup>t [P(\<tau>\<Sigma>)P\<^sup>t + \<Omega>]\<^sup>-\<^sup>1 P(\<tau>\<Sigma>)\<close>.
\<close>

theorem posterior_covariance_formula:
  assumes "well_formed cov" "nrows cov = N" "ncols cov = N"
    and "well_formed P" "nrows P = K" "ncols P = N"
    and "well_formed omega" "nrows omega = K" "ncols omega = K"
    and "0 < tau"
    and "M = mk K K (view_matrix N tau (entry cov) (entry P) (entry omega))"
    and "inverse_pair M X" "linalg_inv M = Some X"
  shows "calculate_posterior_covariance linalg_inv cov tau P omega
         = Inr (mk N N (spec_posterior_covariance N K tau (entry cov) (entry P) (entry X)))"
proof -
  have X: "mk K K (entry X) = X"
    using assms(11,12) mk_entry [of X] by (simp add: inverse_pair_def)
  have "mk N N (entry cov) = cov" "mk K N (entry P) = P" "mk K K (entry omega) = omega"
    using assms(1-9) by (simp_all add: mk_entry_shape)
  then show ?thesis
    using posterior_covariance_mk [of linalg_inv K N tau "entry cov" "entry P" "entry omega"
        "entry X"] assms(11,13) X
    by simp
qed

theorem posterior_covariance_formula_witness:
  "calculate_posterior_covariance gauss_jordan_inv ex_cov (1 / 2) ex_pick ex_omega
   = Inr \<lparr>nrows = 2, ncols = 2, rows = [[35 / 12, 5 / 3], [5 / 3, 25 / 6]]\<rparr>"
proof -
  define M where "M = mk 1 1 (view_matrix 2 (1 / 2) (entry ex_cov) (entry ex_pick) (entry ex_omega))"
  define X where "X = \<lparr>nrows = 1, ncols = 1, rows = [[1 / 3 :: real]]\<rparr>"
  have M: "M = \<lparr>nrows = 1, ncols = 1, rows = [[3]]\<rparr>"
    unfolding M_def by code_simp
  have inv: "inverse_pair M X" "gauss_jordan_inv M = Some X"
    unfolding M X_def by code_simp+
  have "calculate_posterior_covariance gauss_jordan_inv ex_cov (1 / 2) ex_pick ex_omega
        = Inr (mk 2 2 (spec_posterior_covariance 2 1 (1 / 2) (entry ex_cov) (entry ex_pick)
                         (entry X)))"
  proof (rule posterior_covariance_formula [where K = 1 and M = M and X = X])
    show "M = mk 1 1 (view_matrix 2 (1 / 2) (entry ex_cov) (entry ex_pick) (entry ex_omega))"
      by (fact M_def)
    show "inverse_pair M X" "gauss_jordan_inv M = Some X"
      by (fact inv)+
    show "well_formed ex_cov" "well_formed ex_pick" "well_formed ex_omega"
      by code_simp+
    show "nrows ex_cov = 2" "ncols ex_cov = 2" "nrows ex_pick = 1" "ncols ex_pick = 2"
      "nrows ex_omega = 1" "ncols ex_omega = 1"
      by (simp_all add: ex_cov_def ex_pick_def ex_omega_def)
    show "(0::real) < 1 / 2"
      by simp
  qed
  also have "mk 2 2 (spec_posterior_covariance 2 1 (1 / 2) (entry ex_cov) (entry ex_pick)
                       (entry X))
             = \<lparr>nrows = 2, ncols = 2, rows = [[35 / 12, 5 / 3], [5 / 3, 25 / 6]]\<rparr>"
    unfolding X_def by code_simp
  finally show ?thesis .
qed

section \<open>Maximum-Sharpe weights\<close>

lemma py_sum_column: "py_sum (mk n (Suc 0) f) = [(\<Sum>i<n. f i 0)]"
proof -
  have "sum_list (map (\<lambda>i. entry (mk n (Suc 0) f) i 0) [0..<n]) = (\<Sum>i<n. f i 0)"
    unfolding sum_list_upt by (rule sum.cong) simp_all
  then show ?thesis
    by (simp add: py_sum_def)
qed

lemma idiv_column: "idiv (mk n (Suc 0) f) [t] = mk n (Suc 0) (\<lambda>i j. f i 0 / t)"
  by (auto simp: idiv_def intro!: mk_cong)

lemma max_sharpe_weights_mk:
  assumes "linalg_inv (mk N N C) = Some (mk N N X)"
  shows "calculate_max_sharpe_weights linalg_inv (mk N N C) (mk 1 N r)
         = Inr (mk N 1 (spec_weights N X r))"
  using assms
  by (simp add: calculate_max_sharpe_weights_def np_inv_def transpose_mk dot_mk py_sum_column
      idiv_column spec_weights_def raw_weights_def)

lemma spec_weights_sum:
  assumes "(\<Sum>l<N. raw_weights N X r l 0) \<noteq> 0"
  shows "(\<Sum>i<N. spec_weights N X r i 0) = 1"
  using assms by (simp add: spec_weights_def sum_divide_distrib [symmetric])

text \<open>
  C5. When \<open>\<Sigma>\<^sub>p\<^sub>o\<^sub>s\<^sub>t\<close> is invertible, the inversion routine returns its inverse and
  \<open>sum(raw)\<close> is not zero, \<^verbatim>\<open>_calculate_max_sharpe_weights\<close> returns \<open>raw / sum(raw)\<close> with
  \<open>raw = \<Sigma>\<^sub>p\<^sub>o\<^sub>s\<^sub>t\<^sup>-\<^sup>1 \<cdot> \<pi>\<^sub>p\<^sub>o\<^sub>s\<^sub>t\<^sup>t\<close>, and the weights sum to 1, whatever their signs.
\<close>

theorem max_sharpe_weights_formula:
  assumes "well_formed pcov" "nrows pcov = N" "ncols pcov = N"
    and "well_formed returns" "nrows returns = 1" "ncols returns = N"
    and "inverse_pair pcov X" "linalg_inv pcov = Some X"
    and "(\<Sum>l<N. raw_weights N (entry X) (entry returns) l 0) \<noteq> 0"
  shows "\<exists>w. calculate_max_sharpe_weights linalg_inv pcov returns = Inr w \<and>
             w = mk N 1 (spec_weights N (entry X) (entry returns)) \<and>
             (\<Sum>i<N. entry w i 0) = 1"
proof -
  have X: "mk N N (entry X) = X"
    using assms(2,7) mk_entry [of X] by (simp add: inverse_pair_def)
  have "mk N N (entry pcov) = pcov" "mk 1 N (entry returns) = returns"
    using assms(1-6) by (simp_all add: mk_entry_shape)
  then have "calculate_max_sharpe_weights linalg_inv pcov returns
             = Inr (mk N 1 (spec_weights N (entry X) (entry returns)))"
    using max_sharpe_weights_mk [of linalg_inv N "entry pcov" "entry X" "entry returns"]
      assms(8) X
    by simp
  moreover have "(\<Sum>i<N. entry (mk N 1 (spec_weights N (entry X) (entry returns))) i 0)
                 = (\<Sum>i<N. spec_weights N (entry X) (entry returns) i 0)"
    by (rule sum.cong) simp_all
  ultimately show ?thesis
    using spec_weights_sum [OF assms(9)] by simp
qed

theorem max_sharpe_weights_formula_witness:
  "calculate_max_sharpe_weights gauss_jordan_inv ex_cov ex_returns
   = Inr \<lparr>nrows = 2, ncols = 1, rows = [[1 / 2], [1 / 2]]\<rparr>"
proof -
  define X where "X = \<lparr>nrows = 2, ncols = 2, rows = [[3 / 5, - (1 / 5)], [- (1 / 5), 2 / 5 :: real]]\<rparr>"
  have "\<exists>w. calculate_max_sharpe_weights gauss_jordan_inv ex_cov ex_returns = Inr w \<and>
            w = mk 2 1 (spec_weights 2 (entry X) (entry ex_returns)) \<and>
            (\<Sum>i<2. entry w i 0) = 1"
  proof (rule max_sharpe_weights_formula)
    show "well_formed ex_cov" "well_formed ex_returns"
      by code_simp+
    show "nrows ex_cov = 2" "ncols ex_cov = 2" "nrows ex_returns = 1" "ncols ex_returns = 2"
      by (simp_all add: ex_cov_def ex_returns_def)
    show "inverse_pair ex_cov X" "gauss_jordan_inv ex_cov = Some X"
      unfolding X_def by code_simp+
    show "(\<Sum>l<2. raw_weights 2 (entry X) (entry ex_returns) l 0) \<noteq> 0"
      unfolding X_def by code_simp
  qed
  moreover have "mk 2 1 (spec_weights 2 (entry X) (entry ex_returns))
                 = \<lparr>nrows = 2, ncols = 1, rows = [[1 / 2], [1 / 2]]\<rparr>"
    unfolding X_def by code_simp
  ultimately show ?thesis
    by simp
qed

section \<open>Omega from the prior variance\<close>

lemma diag_mk: "diag_matrix (diag_of (mk K K f)) = mk K K (m_diag f)"
proof -
  have "diag_of (mk K K f) = map (\<lambda>i. f i i) [0..<K]"
    by (simp add: diag_of_def)
  then show ?thesis
    by (auto simp: diag_matrix_def m_diag_def intro!: mk_cong)
qed

lemma prior_omega_mk:
  "calculate_omega (mk N N S) tau (mk K N P) view_confidences ''prior_variance''
   = Inr (mk K K (spec_prior_omega N tau S P))"
proof -
  have "mk K K (m_diag (m_mul N P (m_mul N (m_scale tau S) (m_transpose P))))
        = mk K K (spec_prior_omega N tau S P)"
    by (intro mk_cong) (simp add: spec_prior_omega_def m_diag_def m_mul_assoc)
  then show ?thesis
    by (simp add: calculate_omega_def scale_mk transpose_mk dot_mk diag_mk)
qed

lemma view_variance_quadratic:
  "m_mul N (m_mul N P (m_scale tau S)) (m_transpose P) i i
   = tau * (\<Sum>a<N. \<Sum>b<N. P i a * S a b * P i b)"
proof -
  have "m_mul N (m_mul N P (m_scale tau S)) (m_transpose P) i i
        = (\<Sum>b<N. \<Sum>a<N. tau * (P i a * S a b * P i b))"
    by (simp add: m_mul_def m_scale_def m_transpose_def sum_distrib_left sum_distrib_right
        mult_ac)
  also have "\<dots> = (\<Sum>a<N. \<Sum>b<N. tau * (P i a * S a b * P i b))"
    by (rule sum.swap)
  finally show ?thesis
    by (simp add: sum_distrib_left)
qed

lemma spec_prior_omega_nonneg:
  assumes "psd N S" "0 \<le> tau"
  shows "0 \<le> spec_prior_omega N tau S P i i"
proof -
  have "0 \<le> (\<Sum>a<N. \<Sum>b<N. P i a * S a b * P i b)"
    using assms(1) by (simp add: psd_def)
  then show ?thesis
    using assms(2) by (simp add: spec_prior_omega_def m_diag_def view_variance_quadratic)
qed

text \<open>
  C8. For a positive semi-definite covariance \<open>\<Sigma>\<close>, \<open>\<tau> \<ge> 0\<close> and a pick matrix \<open>P\<close>, the omega
  of the prior-variance mode is \<open>diag(P \<cdot> (\<tau>\<Sigma>) \<cdot> P\<^sup>t)\<close>: zero off the diagonal and
  non-negative on it.
\<close>

theorem prior_variance_omega:
  assumes "well_formed cov" "nrows cov = N" "ncols cov = N"
    and "well_formed P" "nrows P = K" "ncols P = N"
    and "psd N (entry cov)" "0 \<le> tau"
  shows "\<exists>omega. calculate_omega cov tau P view_confidences ''prior_variance'' = Inr omega \<and>
           omega = mk K K (spec_prior_omega N tau (entry cov) (entry P)) \<and>
           (\<forall>i<K. \<forall>j<K. i \<noteq> j \<longrightarrow> entry omega i j = 0) \<and>
           (\<forall>i<K. 0 \<le> entry omega i i)"
proof -
  have "mk N N (entry cov) = cov" "mk K N (entry P) = P"
    using assms(1-6) by (simp_all add: mk_entry_shape)
  then have "calculate_omega cov tau P view_confidences ''prior_variance''
             = Inr (mk K K (spec_prior_omega N tau (entry cov) (entry P)))"
    using prior_omega_mk [of N "entry cov" tau K "entry P" view_confidences] by simp
  moreover have "spec_prior_omega N tau (entry cov) (entry P) i j = 0" if "i \<noteq> j" for i j
    using that by (simp add: spec_prior_omega_def m_diag_def)
  ultimately show ?thesis
    using spec_prior_omega_nonneg [OF assms(7,8)] by simp
qed

lemma psd_ex_cov: "psd 2 (entry ex_cov)"
proof -
  have "0 \<le> (\<Sum>a<2. \<Sum>b<2. x a * entry ex_cov a b * x b)" for x :: "nat \<Rightarrow> real"
  proof -
    have "(\<Sum>a<2. \<Sum>b<2. x a * entry ex_cov a b * x b)
          = (x 0 + x 1)\<^sup>2 + (x 0)\<^sup>2 + 2 * (x 1)\<^sup>2"
      by (simp add: lessThan_Suc numeral_2_eq_2 entry_def ex_cov_def power2_eq_square
          algebra_simps)
    then show ?thesis
      by simp
  qed
  then show ?thesis
    by (simp add: psd_def)
qed

theorem prior_variance_omega_witness:
  "calculate_omega ex_cov (1 / 2) ex_pick None ''prior_variance''
   = Inr \<lparr>nrows = 1, ncols = 1, rows = [[3 / 2]]\<rparr>"
proof -
  have "\<exists>omega. calculate_omega ex_cov (1 / 2) ex_pick None ''prior_variance'' = Inr omega \<and>
           omega = mk 1 1 (spec_prior_omega 2 (1 / 2) (entry ex_cov) (entry ex_pick)) \<and>
           (\<forall>i<1. \<forall>j<1. i \<noteq> j \<longrightarrow> entry omega i j = 0) \<and>
           (\<forall>i<1. 0 \<le> entry omega i i)"
  proof (rule prior_variance_omega)
    show "well_formed ex_cov" "well_formed ex_pick"
      by code_simp+
    show "nrows ex_cov = 2" "ncols ex_cov = 2" "nrows ex_pick = 1" "ncols ex_pick = 2"
      by (simp_all add: ex_cov_def ex_pick_def)
    show "psd 2 (entry ex_cov)"
      by (fact psd_ex_cov)
    show "(0::real) \<le> 1 / 2"
      by simp
  qed
  moreover have "mk 1 1 (spec_prior_omega 2 (1 / 2) (entry ex_cov) (entry ex_pick))
                 = \<lparr>nrows = 1, ncols = 1, rows = [[3 / 2]]\<rparr>"
    by code_simp
  ultimately show ?thesis
    by simp
qed

section \<open>Pick matrix\<close>



















lemma those_Some: "those xs = Some ys \<longleftrightarrow> xs = map Some ys"
proof (induction xs arbitrary: ys)
  case Nil
  then show ?case by auto
next
  case (Cons x xs)
  then show ?case
    by (cases x; cases ys) (auto split: option.splits)
qed

lemma those_rows_Some: "those (map those css) = Some vals \<longleftrightarrow> css = map (map Some) vals"
proof -
  have "those (map those css) = Some vals \<longleftrightarrow> map those css = map Some vals"
    by (rule those_Some)
  also have "\<dots> \<longleftrightarrow> css = map (map Some) vals"
    by (auto simp: list_eq_iff_nth_eq those_Some)
  finally show ?thesis .
qed

lemma frame_values_cases:
  "frame_values fr = Inl FrameEnlarged \<or>
   (\<exists>vals. cells fr = map (map Some) vals \<and>
      frame_values fr = Inr \<lparr>nrows = length (cells fr), ncols = length (columns fr), rows = vals\<rparr>)"
proof (cases "those (map those (cells fr))")
  case None
  then show ?thesis
    by (simp add: frame_values_def)
next
  case (Some vals)
  then have "cells fr = map (map Some) vals"
    by (simp only: those_rows_Some)
  moreover have "frame_values fr
      = Inr \<lparr>nrows = length (cells fr), ncols = length (columns fr), rows = vals\<rparr>"
    unfolding frame_values_def Some by simp
  ultimately show ?thesis
    by blast
qed










text \<open>With no more pick specifications than views, as after validation, the loop stays
  inside the rows of the frame.\<close>

lemma loc_setitem_error:
  "loc_setitem view_index d fr = Inl e \<Longrightarrow> e = ShapeError \<or> e = FrameEnlarged"
  by (auto simp: loc_setitem_def Let_def split: if_splits)

lemma loc_loop_error: "loc_loop k ds fr = Inl e \<Longrightarrow> e = ShapeError \<or> e = FrameEnlarged"
  by (induction k ds fr rule: loc_loop.induct)
    (auto split: sum.splits dest: loc_setitem_error)

lemma frame_values_error: "frame_values fr = Inl e \<Longrightarrow> e = FrameEnlarged"
  using frame_values_cases [of fr] by auto

text \<open>With no more pick specifications than views, as after validation, the loop stays
  inside the rows of the frame.\<close>

lemma loc_setitem_rows:
  "loc_setitem view_index d fr = Inr fr' \<Longrightarrow> length (cells fr') = length (cells fr)"
  by (auto simp: loc_setitem_def Let_def add_columns_def split: if_splits)

lemma loc_loop_inside:
  "k + length ds \<le> length (cells fr) \<Longrightarrow> loc_loop k ds fr \<noteq> Inl FrameEnlarged"
proof (induction ds arbitrary: k fr)
  case Nil
  then show ?case by simp
next
  case (Cons d ds)
  have k: "k < length (cells fr)"
    using Cons.prems by simp
  show ?case
  proof (cases "loc_setitem k d fr")
    case (Inl e)
    then have "e = ShapeError"
      using k by (auto simp: loc_setitem_def Let_def add_columns_def split: if_splits)
    then show ?thesis
      using Inl by simp
  next
    case (Inr fr')
    then have "Suc k + length ds \<le> length (cells fr')"
      using Cons.prems loc_setitem_rows [OF Inr] by simp
    then show ?thesis
      using Cons.IH [of "Suc k" fr'] Inr by simp
  qed
qed

section \<open>Validation\<close>

lemma check_confidences_Inr: "check_confidences cs = Inr () \<longleftrightarrow> \<not> list_ex (\<lambda>c. c < 0) cs"
  by (induction cs) auto

lemma check_confidences_Inl:
  "check_confidences cs = Inl e \<longleftrightarrow> e = NegativeConfidence \<and> list_ex (\<lambda>c. c < 0) cs"
  by (induction cs) auto

lemma error_checks_Inr:
  "error_checks views pick_list omega_method view_confidences = Inr ()
   \<longleftrightarrow> \<not> misconfigured views pick_list omega_method view_confidences"
  by (auto simp: error_checks_def misconfigured_def check_confidences_Inr
      split: option.splits)

lemma error_checks_Inl:
  "error_checks views pick_list omega_method view_confidences = Inl e \<Longrightarrow> configuration_error e"
  by (auto simp: error_checks_def configuration_error_def check_confidences_Inl
      split: option.splits if_splits)

lemma allocate_rejected:
  "error_checks views pick_list omega_method view_confidences = Inl e \<Longrightarrow>
   allocate linalg_inv self covariance mcw views pick_list omega risk_aversion tau omega_method
     view_confidences asset_names = (self, Some e)"
  by (simp add: allocate_def)

section \<open>Errors after validation\<close>

lemma runtime_only_Inr [simp]: "runtime_only (Inr x)"
  by (simp add: runtime_only_def)

lemma runtime_only_ebind:
  "runtime_only m \<Longrightarrow> (\<And>x. runtime_only (f x)) \<Longrightarrow> runtime_only (ebind m f)"
  by (cases m) (auto simp: runtime_only_def)

lemma runtime_only_dot [simp]: "runtime_only (dot A B)"
  by (simp add: runtime_only_def dot_def configuration_error_def)

lemma runtime_only_broadcast [simp]: "runtime_only (broadcast f A B)"
  by (simp add: runtime_only_def broadcast_def configuration_error_def split: option.splits)

lemma runtime_only_reshape_flat [simp]: "runtime_only (reshape_flat xs r c)"
  by (simp add: runtime_only_def reshape_flat_def configuration_error_def)

lemma runtime_only_np_inv [simp]: "runtime_only (np_inv linalg_inv A)"
  by (simp add: runtime_only_def np_inv_def configuration_error_def split: option.splits)

lemma runtime_only_pre_process_inputs: "runtime_only (pre_process_inputs covariance mcw views)"
  unfolding pre_process_inputs_def by (intro runtime_only_ebind) simp_all

lemma runtime_only_implied:
  "runtime_only (calculate_implied_equilibrium_returns risk_aversion cov mcw)"
  unfolding calculate_implied_equilibrium_returns_def by (intro runtime_only_ebind) simp_all

lemma runtime_only_create_pick_matrix:
  "runtime_only (create_pick_matrix num_views num_assets pick_list names)"
proof -
  have "e = ShapeError \<or> e = FrameEnlarged"
    if "create_pick_matrix num_views num_assets pick_list names = Inl e" for e
    using that
    by (auto simp: create_pick_matrix_def ebind_def
        split: if_splits sum.splits dest: loc_loop_error frame_values_error)
  then show ?thesis
    by (auto simp: runtime_only_def configuration_error_def)
qed

lemma runtime_only_idzorek:
  "runtime_only (calculate_idzorek_omega cov view_confidences pick_matrix)"
proof -
  have "runtime_only (case view_confidences of
            None \<Rightarrow> if nrows cov = 1 then Inl TypeError else Inl ShapeError
          | Some cs \<Rightarrow> reshape_flat cs 1 (nrows cov))"
  proof (cases view_confidences)
    case None
    then show ?thesis
      by (simp add: runtime_only_def configuration_error_def)
  next
    case (Some cs)
    then show ?thesis
      by simp
  qed
  then show ?thesis
    unfolding calculate_idzorek_omega_def Let_def np_mul_def
    by (intro runtime_only_ebind) simp_all
qed

lemma runtime_only_omega:
  "runtime_only (calculate_omega cov tau pick_matrix view_confidences omega_method)"
  unfolding calculate_omega_def
  by (intro runtime_only_ebind) (auto intro!: runtime_only_ebind runtime_only_idzorek)

lemma runtime_only_posterior_returns:
  "runtime_only (calculate_posterior_expected_returns linalg_inv implied cov tau P omega Q)"
  unfolding calculate_posterior_expected_returns_def np_add_def np_sub_def reshape_def
  by (intro runtime_only_ebind) simp_all

lemma runtime_only_posterior_covariance:
  "runtime_only (calculate_posterior_covariance linalg_inv cov tau P omega)"
  unfolding calculate_posterior_covariance_def np_add_def np_sub_def
  by (intro runtime_only_ebind) simp_all

lemma runtime_only_weights:
  "runtime_only (calculate_max_sharpe_weights linalg_inv pcov returns)"
  unfolding calculate_max_sharpe_weights_def
  by (intro runtime_only_ebind) simp_all

lemma pd_DataFrame_error: "pd_DataFrame idx cols vals = Inl e \<Longrightarrow> e = ShapeError"
  by (auto simp: pd_DataFrame_def split: if_splits option.splits)

lemma post_processing_error:
  "snd (post_processing s names) = Some e \<Longrightarrow> e = ShapeError \<or> e = TypeError"
  by (auto simp: post_processing_def Let_def
      split: option.splits table.splits sum.splits dest: pd_DataFrame_error)

lemma runtime_onlyD: "runtime_only m \<Longrightarrow> m = Inl e \<Longrightarrow> \<not> configuration_error e"
  by (simp add: runtime_only_def)

lemma runtime_only_omega_stage:
  "runtime_only (ebind (case omega of
                          None \<Rightarrow> calculate_omega cov tau P view_confidences omega_method
                        | Some given \<Rightarrow> Inr given)
                   (\<lambda>om. reshape om K K))"
  by (intro runtime_only_ebind) (auto simp: reshape_def runtime_only_omega split: option.splits)

lemma post_processing_runtime:
  "snd (post_processing s names) = Some e \<Longrightarrow> \<not> configuration_error e"
  using post_processing_error [of s names e] by (auto simp: configuration_error_def)

lemma allocate_runtime:
  assumes "error_checks views pick_list omega_method view_confidences = Inr ()"
    and "snd (allocate linalg_inv self covariance mcw views pick_list omega risk_aversion tau
               omega_method view_confidences asset_names) = Some e"
  shows "\<not> configuration_error e"
  using assms(2) unfolding allocate_def Let_def assms(1)
  by (auto split: sum.splits prod.splits
      dest: runtime_onlyD [OF runtime_only_pre_process_inputs]
        runtime_onlyD [OF runtime_only_implied]
        runtime_onlyD [OF runtime_only_create_pick_matrix]
        runtime_onlyD [OF runtime_only_omega_stage]
        runtime_onlyD [OF runtime_only_posterior_returns]
        runtime_onlyD [OF runtime_only_posterior_covariance]
        runtime_onlyD [OF runtime_only_weights]
        post_processing_runtime)

text \<open>
  C9. \<^verbatim>\<open>allocate\<close> raises a configuration error exactly when the view count differs from
  the pick-list count, the omega method is unrecognized, or, in user-confidence mode,
  the confidences are missing, their count differs from the view count, or one of them
  is negative. Then none of the four fields is modified. Confidences that are zero or
  more pass the validation, a zero among them too.
\<close>

theorem configuration_errors:
  "((\<exists>e. snd (allocate linalg_inv self covariance mcw views pick_list omega risk_aversion tau
               omega_method view_confidences asset_names) = Some e \<and> configuration_error e)
      \<longleftrightarrow> misconfigured views pick_list omega_method view_confidences) \<and>
   (misconfigured views pick_list omega_method view_confidences \<longrightarrow>
      fst (allocate linalg_inv self covariance mcw views pick_list omega risk_aversion tau
             omega_method view_confidences asset_names) = self) \<and>
   (length views = length pick_list \<and> length cs = length views \<and> (\<forall>c\<in>set cs. 0 \<le> c) \<longrightarrow>
      error_checks views pick_list ''user_confidences'' (Some cs) = Inr ())"
proof (intro conjI impI)
  show "(\<exists>e. snd (allocate linalg_inv self covariance mcw views pick_list omega risk_aversion tau
               omega_method view_confidences asset_names) = Some e \<and> configuration_error e)
      \<longleftrightarrow> misconfigured views pick_list omega_method view_confidences"
  proof (cases "error_checks views pick_list omega_method view_confidences")
    case (Inl e)
    then have "misconfigured views pick_list omega_method view_confidences"
      using error_checks_Inr [of views pick_list omega_method view_confidences] by simp
    then show ?thesis
      using allocate_rejected [OF Inl] error_checks_Inl [OF Inl] by simp
  next
    case (Inr u)
    then have "\<not> misconfigured views pick_list omega_method view_confidences"
      using error_checks_Inr [of views pick_list omega_method view_confidences] by simp
    then show ?thesis
      using allocate_runtime [of views pick_list omega_method view_confidences] Inr by auto
  qed
next
  assume "misconfigured views pick_list omega_method view_confidences"
  then obtain e where "error_checks views pick_list omega_method view_confidences = Inl e"
    using error_checks_Inr [of views pick_list omega_method view_confidences]
    by (cases "error_checks views pick_list omega_method view_confidences") auto
  then show "fst (allocate linalg_inv self covariance mcw views pick_list omega risk_aversion tau
             omega_method view_confidences asset_names) = self"
    by (simp add: allocate_rejected)
next
  assume "length views = length pick_list \<and> length cs = length views \<and> (\<forall>c\<in>set cs. 0 \<le> c)"
  then have "\<not> misconfigured views pick_list ''user_confidences'' (Some cs)"
    by (auto simp: misconfigured_def list_ex_iff)
  then show "error_checks views pick_list ''user_confidences'' (Some cs) = Inr ()"
    by (simp add: error_checks_Inr)
qed

theorem configuration_errors_witness:
  "(\<exists>e. snd (allocate gauss_jordan_inv ex_earlier (Array ex_cov) [1 / 2, 1 / 2] [1 / 10]
              ex_pick_list None 2 (1 / 2) ''user_confidences'' (Some [- 1]) None) = Some e \<and>
        configuration_error e) \<and>
   fst (allocate gauss_jordan_inv ex_earlier (Array ex_cov) [1 / 2, 1 / 2] [1 / 10]
          ex_pick_list None 2 (1 / 2) ''user_confidences'' (Some [- 1]) None) = ex_earlier \<and>
   error_checks [1 / 10] ex_pick_list ''user_confidences'' (Some [0]) = Inr ()"
proof -
  have "misconfigured [1 / 10] ex_pick_list ''user_confidences'' (Some [- 1])"
    by (simp add: misconfigured_def)
  moreover have "length [1 / 10 :: real] = length ex_pick_list \<and>
      length [0 :: real] = length [1 / 10 :: real] \<and> (\<forall>c\<in>set [0 :: real]. 0 \<le> c)"
    by (simp add: ex_pick_list_def)
  ultimately show ?thesis
    using configuration_errors [of gauss_jordan_inv ex_earlier "Array ex_cov" "[1 / 2, 1 / 2]"
        "[1 / 10]" ex_pick_list None 2 "1 / 2" "''user_confidences''" "Some [- 1]" None "[0]"]
    by simp
qed

section \<open>The omega method selector\<close>

text \<open>
  C4, as the specification has it: validation accepts the selector exactly when it is
  \<^verbatim>\<open>prior-variance\<close> or \<^verbatim>\<open>user-confidence\<close>. The code refuses both strings and accepts
  \<^verbatim>\<open>prior_variance\<close>, which is neither.
\<close>

theorem spec_mode_strings_rejected:
  "error_checks [1 / 10] ex_pick_list ''prior-variance'' None = Inl UnknownOmegaMethod \<and>
   error_checks [1 / 10] ex_pick_list ''user-confidence'' (Some [1 / 2]) = Inl UnknownOmegaMethod \<and>
   error_checks [1 / 10] ex_pick_list ''prior_variance'' None = Inr ()"
  by (simp add: error_checks_def ex_pick_list_def)

text \<open>
  C4, amended. Validation accepts the omega method selector exactly when it is one of
  the strings \<^verbatim>\<open>prior_variance\<close> and \<^verbatim>\<open>user_confidences\<close>: the unknown-method error is
  raised exactly when the view and pick-list counts agree and the selector is another
  string. With any other string \<^verbatim>\<open>allocate\<close> ends in a validation error, that one or
  the count mismatch, and leaves the instance as it was: nothing has been computed.
\<close>

theorem omega_method_validation:
  "(error_checks views pick_list omega_method view_confidences = Inl UnknownOmegaMethod
      \<longleftrightarrow> length views = length pick_list \<and>
          omega_method \<noteq> ''prior_variance'' \<and> omega_method \<noteq> ''user_confidences'') \<and>
   (omega_method \<noteq> ''prior_variance'' \<and> omega_method \<noteq> ''user_confidences'' \<longrightarrow>
      (\<exists>e. (e = UnknownOmegaMethod \<or> e = ViewsPickMismatch) \<and>
           allocate linalg_inv self covariance mcw views pick_list omega risk_aversion tau
             omega_method view_confidences asset_names = (self, Some e)))"
proof (intro conjI impI)
  show "error_checks views pick_list omega_method view_confidences = Inl UnknownOmegaMethod
      \<longleftrightarrow> length views = length pick_list \<and>
          omega_method \<noteq> ''prior_variance'' \<and> omega_method \<noteq> ''user_confidences''"
    by (auto simp: error_checks_def check_confidences_Inl split: option.splits)
next
  assume other: "omega_method \<noteq> ''prior_variance'' \<and> omega_method \<noteq> ''user_confidences''"
  then have "error_checks views pick_list omega_method view_confidences
             = (if length views \<noteq> length pick_list then Inl ViewsPickMismatch
                else Inl UnknownOmegaMethod)"
    by (simp add: error_checks_def)
  then show "\<exists>e. (e = UnknownOmegaMethod \<or> e = ViewsPickMismatch) \<and>
           allocate linalg_inv self covariance mcw views pick_list omega risk_aversion tau
             omega_method view_confidences asset_names = (self, Some e)"
    by (cases "length views = length pick_list") (simp_all add: allocate_rejected)
qed

theorem omega_method_validation_witness:
  "allocate gauss_jordan_inv ex_earlier (Array ex_cov) [1 / 2, 1 / 2] [1 / 10] ex_pick_list
     None 2 (1 / 2) ''prior-variance'' None None = (ex_earlier, Some UnknownOmegaMethod)"
proof -
  have "error_checks [1 / 10] ex_pick_list ''prior-variance'' None = Inl UnknownOmegaMethod"
    using omega_method_validation [of "[1 / 10]" ex_pick_list "''prior-variance''" None]
    by (simp add: ex_pick_list_def)
  then show ?thesis
    using omega_method_validation [of "[1 / 10]" ex_pick_list "''prior-variance''" None
        gauss_jordan_inv ex_earlier "Array ex_cov" "[1 / 2, 1 / 2]" None 2 "1 / 2" None]
    by (auto simp: allocate_def)
qed

section \<open>Failure while the pick matrix is built\<close>

text \<open>
  C10. When \<^verbatim>\<open>allocate\<close> has passed validation and fails while the pick matrix is
  built, the field \<^verbatim>\<open>implied_equilibrium_returns\<close> holds the value of the new run and
  the other three fields hold what they held before.
\<close>

theorem pick_matrix_failure_state:
  assumes "error_checks views pick_list omega_method view_confidences = Inr ()"
    and "pre_process_inputs covariance mcw views = Inr (cov, w, q)"
    and "calculate_implied_equilibrium_returns risk_aversion cov w = Inr implied"
    and "create_pick_matrix (length views) (length mcw) pick_list
           (case asset_names of
              None \<Rightarrow> default_asset_names covariance (length mcw)
            | Some given \<Rightarrow> given) = Inl e"
    and "allocate linalg_inv self covariance mcw views pick_list omega risk_aversion tau
           omega_method view_confidences asset_names = (self', raised)"
  shows "raised = Some e \<and>
         implied_equilibrium_returns self' = Some (Array implied) \<and>
         weights self' = weights self \<and>
         posterior_expected_returns self' = posterior_expected_returns self \<and>
         posterior_covariance self' = posterior_covariance self"
  using assms(5) by (auto simp: allocate_def Let_def assms(1-4))

theorem pick_matrix_failure_state_witness:
  "allocate gauss_jordan_inv ex_earlier (Array ex_cov) [1 / 2, 1 / 2] [1 / 10]
     ex_pick_list None 2 (1 / 2) ''prior_variance'' None (Some [''0''])
   = (ex_earlier\<lparr>implied_equilibrium_returns := Some (Array ex_implied)\<rparr>, Some ShapeError)"
proof -
  obtain self' raised where run:
    "allocate gauss_jordan_inv ex_earlier (Array ex_cov) [1 / 2, 1 / 2] [1 / 10]
       ex_pick_list None 2 (1 / 2) ''prior_variance'' None (Some [''0'']) = (self', raised)"
    by (cases "allocate gauss_jordan_inv ex_earlier (Array ex_cov) [1 / 2, 1 / 2] [1 / 10]
       ex_pick_list None 2 (1 / 2) ''prior_variance'' None (Some [''0''])") blast
  have state: "raised = Some ShapeError \<and>
        implied_equilibrium_returns self' = Some (Array ex_implied) \<and>
        weights self' = weights ex_earlier \<and>
        posterior_expected_returns self' = posterior_expected_returns ex_earlier \<and>
        posterior_covariance self' = posterior_covariance ex_earlier"
  proof (rule pick_matrix_failure_state [OF _ _ _ _ run])
    show "error_checks [1 / 10] ex_pick_list ''prior_variance'' None = Inr ()"
      by code_simp
    show "pre_process_inputs (Array ex_cov) [1 / 2, 1 / 2] [1 / 10]
          = Inr (ex_cov, \<lparr>nrows = 2, ncols = 1, rows = [[1 / 2], [1 / 2]]\<rparr>, ex_views)"
      by code_simp
    show "calculate_implied_equilibrium_returns 2 ex_cov
            \<lparr>nrows = 2, ncols = 1, rows = [[1 / 2], [1 / 2]]\<rparr> = Inr ex_implied"
      by code_simp
    show "create_pick_matrix (length [1 / 10 :: real]) (length [1 / 2, 1 / 2 :: real])
            ex_pick_list
            (case Some [''0''] of
               None \<Rightarrow> default_asset_names (Array ex_cov) (length [1 / 2, 1 / 2 :: real])
             | Some given \<Rightarrow> given) = Inl ShapeError"
      by code_simp
  qed
  then have "self' = ex_earlier\<lparr>implied_equilibrium_returns := Some (Array ex_implied)\<rparr>"
    by (cases self') (simp add: ex_earlier_def)
  then show ?thesis
    using run state by simp
qed

text \<open>
  A pick specification that names an unknown asset does not stop the pick matrix from
  being built; the run fails at the next step, on the shape of the matrix, and leaves
  the instance in the same state.
\<close>

lemma unknown_asset_run:
  "allocate gauss_jordan_inv ex_earlier (Array ex_cov) [1 / 2, 1 / 2] [1 / 10]
     ex_unknown_pick_list None 2 (1 / 2) ''prior_variance'' None None
   = (ex_earlier\<lparr>implied_equilibrium_returns := Some (Array ex_implied)\<rparr>, Some ShapeError)"
  by code_simp

section \<open>Omega from the confidences\<close>

lemma idzorek_omega_count_mismatch:
  "length cs \<noteq> nrows cov \<Longrightarrow> calculate_idzorek_omega cov (Some cs) P = Inl ShapeError"
  by (simp add: calculate_idzorek_omega_def reshape_flat_def)

lemma broadcast_row:
  "broadcast h (mk (Suc 0) n a) (mk n n g) = Inr (mk n n (\<lambda>i j. h (a 0 j) (g i j)))"
  by (auto simp: broadcast_def bextent_def bindex_def intro!: mk_cong)

text \<open>With as many views as assets the code computes the omega of the specification.\<close>

lemma idzorek_omega_square:
  assumes "length cs = N"
  shows "calculate_omega (mk N N S) tau (mk N N P) (Some cs) ''user_confidences''
         = Inr (mk N N (spec_idzorek_omega N S P cs))"
proof -
  let ?g = "m_mul N (m_mul N P S) (m_transpose P)"
  let ?conf = "mk (Suc 0) N (\<lambda>i j. cs ! (i * N + j))"
  have alpha: "mk (Suc 0) N (\<lambda>i j. (1 - entry ?conf i j) / entry ?conf i j)
               = mk (Suc 0) N (\<lambda>i j. (1 - cs ! j) / cs ! j)"
    by (intro mk_cong) simp
  have "calculate_idzorek_omega (mk N N S) (Some cs) (mk N N P)
        = Inr (mk N N (\<lambda>i j. (1 - cs ! j) / cs ! j * ?g i j))"
    using assms
    by (simp add: calculate_idzorek_omega_def reshape_flat_def alpha transpose_mk dot_mk
        np_mul_def broadcast_row)
  moreover have "mk N N (m_diag (\<lambda>i j. (1 - cs ! j) / cs ! j * ?g i j))
                 = mk N N (spec_idzorek_omega N S P cs)"
    by (intro mk_cong) (simp add: spec_idzorek_omega_def m_diag_def)
  ultimately show ?thesis
    by (simp add: calculate_omega_def diag_mk)
qed

text \<open>
  C3. In user-confidence mode the omega is \<open>diag(\<alpha>\<^sub>k \<cdot> (P \<cdot> \<Sigma> \<cdot> P\<^sup>t)\<^sub>k\<^sub>k)\<close> for every number of
  views. At one view on two assets with confidence \<open>1/2\<close> that is the matrix \<open>[[3]]\<close>;
  the code reshapes the one confidence to the number of assets and raises.
\<close>

theorem idzorek_omega_one_view_two_assets:
  "calculate_omega ex_cov (1 / 2) ex_pick (Some [1 / 2]) ''user_confidences'' = Inl ShapeError \<and>
   mk 1 1 (spec_idzorek_omega 2 (entry ex_cov) (entry ex_pick) [1 / 2])
     = \<lparr>nrows = 1, ncols = 1, rows = [[3]]\<rparr> \<and>
   snd (allocate gauss_jordan_inv init (Array ex_cov) [1 / 2, 1 / 2] [1 / 10] ex_pick_list None
          2 (1 / 2) ''user_confidences'' (Some [1 / 2]) None) = Some ShapeError"
  by code_simp

section \<open>No views\<close>

lemma mk_no_rows: "mk 0 c f = mk 0 c g"
  by (simp add: mk_def)

lemma mk_empty: "mk 0 0 f = zeros 0 0"
  by (simp add: mk_def zeros_def)

lemma concat_rows_row: "concat (rows (mk (Suc 0) n f)) = map (f 0) [0..<n]"
  by (simp add: mk_def)

lemma pd_DataFrame_values: "pd_DataFrame idx cols vals = Inr t \<Longrightarrow> table_values t = vals"
  by (auto simp: pd_DataFrame_def split: if_splits option.splits)

lemma post_processing_values:
  assumes "weights s = Some (Array w)"
    and "implied_equilibrium_returns s = Some (Array (mk N (Suc 0) f))"
    and "posterior_expected_returns s = Some (Array R)"
    and "posterior_covariance s = Some (Array C)"
    and "post_processing s names = (s', raised)"
  shows "map_option table_values (posterior_expected_returns s') = Some R"
    and "map_option table_values (posterior_covariance s') = Some C"
    and "map_option flat_values (implied_equilibrium_returns s') = Some (map (\<lambda>i. f i 0) [0..<N])"
  using assms(5)
  by (auto simp: post_processing_def assms(1-4) Let_def flat_values_def concat_rows_column
      concat_rows_row transpose_mk m_transpose_def
      split: sum.splits dest: pd_DataFrame_values)

lemma no_views_stages:
  assumes "well_formed (table_values covariance)"
    and "nrows (table_values covariance) = N" "ncols (table_values covariance) = N"
    and "length mcw = N" "length names = N"
    and "linalg_inv (zeros 0 0) = Some (zeros 0 0)"
  defines "S \<equiv> entry (table_values covariance)"
  defines "W \<equiv> \<lambda>i j. mcw ! (i + j)"
  shows "\<exists>q. pre_process_inputs covariance mcw [] = Inr (mk N N S, mk N 1 W, mk 0 1 q)"
    and "calculate_implied_equilibrium_returns risk_aversion (mk N N S) (mk N 1 W)
         = Inr (mk N 1 (m_scale risk_aversion (m_mul N S W)))"
    and "create_pick_matrix 0 N [] names = Inr (mk 0 N (\<lambda>i j. 0))"
    and "(case omega of None \<Rightarrow> omega_method = ''prior_variance''
                       | Some om \<Rightarrow> concat (rows om) = []) \<Longrightarrow>
         ebind (case omega of
                  None \<Rightarrow> calculate_omega (mk N N S) tau (mk 0 N P) view_confidences omega_method
                | Some given \<Rightarrow> Inr given)
           (\<lambda>om. reshape om 0 0) = Inr (mk 0 0 Om)"
    and "calculate_posterior_expected_returns linalg_inv (mk N 1 implied) (mk N N S) tau
           (mk 0 N P) (mk 0 0 Om) (mk 0 1 q) = Inr (mk 1 N (\<lambda>i j. implied j 0))"
    and "calculate_posterior_covariance linalg_inv (mk N N S) tau (mk 0 N P) (mk 0 0 Om)
         = Inr (mk N N (\<lambda>i j. S i j + tau * S i j))"
proof -
  have cov: "(case covariance of DataFrame idx cols vals \<Rightarrow> vals | Array vals \<Rightarrow> vals)
             = mk N N S"
    using assms(1-3) mk_entry_shape [of "table_values covariance" N N]
    by (cases covariance) (simp_all add: S_def)
  show "\<exists>q. pre_process_inputs covariance mcw [] = Inr (mk N N S, mk N 1 W, mk 0 1 q)"
    using assms(4) by (auto simp: pre_process_inputs_def reshape_flat_def cov W_def)
  show "calculate_implied_equilibrium_returns risk_aversion (mk N N S) (mk N 1 W)
         = Inr (mk N 1 (m_scale risk_aversion (m_mul N S W)))"
    by (simp add: calculate_implied_equilibrium_returns_def dot_mk scale_mk)
  show "create_pick_matrix 0 N [] names = Inr (mk 0 N (\<lambda>i j. 0))"
    using assms(5) by (simp add: create_pick_matrix_def frame_values_def zeros_def mk_def)
  show "ebind (case omega of
                 None \<Rightarrow> calculate_omega (mk N N S) tau (mk 0 N P) view_confidences omega_method
               | Some given \<Rightarrow> Inr given)
          (\<lambda>om. reshape om 0 0) = Inr (mk 0 0 Om)"
    if "case omega of None \<Rightarrow> omega_method = ''prior_variance''
                    | Some om \<Rightarrow> concat (rows om) = []"
  proof (cases omega)
    case None
    have "reshape (mk 0 0 (spec_prior_omega N tau S P)) 0 0 = Inr (mk 0 0 Om)"
      by (simp add: reshape_def reshape_flat_def mk_def)
    then show ?thesis
      using that None by (simp add: prior_omega_mk)
  next
    case (Some om)
    then show ?thesis
      using that by (simp add: reshape_def reshape_flat_def mk_def)
  qed
  have inv: "linalg_inv (mk 0 0 (view_matrix N tau S P Om)) = Some (mk 0 0 Om)"
    using assms(6) by (simp add: mk_empty)
  have "mk 1 N (\<lambda>i j. spec_posterior_returns N 0 tau S P Om q implied j 0)
        = mk 1 N (\<lambda>i j. implied j 0)"
    by (intro mk_cong) (simp add: spec_posterior_returns_def m_add_def m_mul_def)
  then show "calculate_posterior_expected_returns linalg_inv (mk N 1 implied) (mk N N S) tau
           (mk 0 N P) (mk 0 0 Om) (mk 0 1 q) = Inr (mk 1 N (\<lambda>i j. implied j 0))"
    using posterior_returns_mk [of linalg_inv 0 N tau S P Om Om implied q] inv by simp
  have "mk N N (spec_posterior_covariance N 0 tau S P Om)
        = mk N N (\<lambda>i j. S i j + tau * S i j)"
    by (intro mk_cong)
      (simp add: spec_posterior_covariance_def m_add_def m_sub_def m_mul_def m_scale_def)
  then show "calculate_posterior_covariance linalg_inv (mk N N S) tau (mk 0 N P) (mk 0 0 Om)
         = Inr (mk N N (\<lambda>i j. S i j + tau * S i j))"
    using posterior_covariance_mk [of linalg_inv 0 N tau S P Om Om] inv by simp
qed

lemma default_asset_names_length:
  "frame_ok covariance \<Longrightarrow> ncols (table_values covariance) = N \<Longrightarrow>
   length (default_asset_names covariance N) = N"
  by (cases covariance) (simp_all add: default_asset_names_def)

lemma no_views_run:
  fixes risk_aversion tau :: real and self :: BlackLitterman
  assumes "well_formed (table_values covariance)"
    and "nrows (table_values covariance) = N" "ncols (table_values covariance) = N"
    and "frame_ok covariance" "length mcw = N"
    and "case asset_names of None \<Rightarrow> True | Some given \<Rightarrow> length given = N"
    and "linalg_inv (zeros 0 0) = Some (zeros 0 0)"
    and "error_checks [] [] omega_method view_confidences = Inr ()"
    and "case omega of None \<Rightarrow> omega_method = ''prior_variance''
                     | Some om \<Rightarrow> concat (rows om) = []"
  defines "S \<equiv> entry (table_values covariance)"
  defines "implied \<equiv> m_scale risk_aversion (m_mul N S (\<lambda>i j. mcw ! (i + j)))"
  defines "R \<equiv> mk 1 N (\<lambda>i j. implied j 0)"
  defines "C \<equiv> mk N N (\<lambda>i j. S i j + tau * S i j)"
  defines "names \<equiv> (case asset_names of
                      None \<Rightarrow> default_asset_names covariance (length mcw)
                    | Some given \<Rightarrow> given)"
  defines "s3 \<equiv> self\<lparr>implied_equilibrium_returns := Some (Array (mk N 1 implied)),
                     posterior_expected_returns := Some (Array R),
                     posterior_covariance := Some (Array C)\<rparr>"
  shows "allocate linalg_inv self covariance mcw [] [] omega risk_aversion tau omega_method
           view_confidences asset_names
         = (case calculate_max_sharpe_weights linalg_inv C R of
              Inl e \<Rightarrow> (s3, Some e)
            | Inr w \<Rightarrow> post_processing (s3\<lparr>weights := Some (Array w)\<rparr>) names)"
proof -
  have names: "length names = N"
    using assms(3-6) default_asset_names_length [of covariance N]
    by (cases asset_names) (simp_all add: names_def)
  note stages = no_views_stages [where linalg_inv = linalg_inv, OF assms(1-3,5) names assms(7)]
  obtain q where pre:
    "pre_process_inputs covariance mcw []
     = Inr (mk N N S, mk N 1 (\<lambda>i j. mcw ! (i + j)), mk 0 1 q)"
    using stages(1) unfolding S_def by blast
  note omega_stage = stages(4) [where Om = "\<lambda>i j. 0" and omega = omega
      and omega_method = omega_method, OF assms(9), folded S_def]
  show ?thesis
    unfolding allocate_def Let_def assms(8) s3_def names_def
    by (simp add: assms(5) pre stages(2,5,6) [folded S_def] stages(3) [unfolded names_def]
        omega_stage implied_def [symmetric] R_def [symmetric] C_def [symmetric]
        del: One_nat_def)
qed

text \<open>
  C6, as the specification has it: with zero views the posterior expected returns equal
  the implied equilibrium returns and the posterior covariance equals \<open>\<Sigma> + \<tau>\<Sigma>\<close>, for
  every call. Three calls with zero views on two assets that end before a posterior
  field is assigned: user-confidence mode without confidences is refused by validation;
  an omega that is supplied with an element cannot be reshaped to \<open>0 \<times> 0\<close>; and in
  user-confidence mode the empty list of confidences passes validation and is then
  reshaped to one confidence per asset, which raises.
\<close>

theorem no_views_without_posterior:
  "allocate gauss_jordan_inv init (Array ex_cov) [1 / 2, 1 / 2] [] [] None 2 (1 / 2)
     ''user_confidences'' None None
   = (init, Some ConfidencesRequired) \<and>
   allocate gauss_jordan_inv init (Array ex_cov) [1 / 2, 1 / 2] [] [] (Some ex_omega) 2 (1 / 2)
     ''prior_variance'' None None
   = (init\<lparr>implied_equilibrium_returns := Some (Array ex_implied)\<rparr>, Some ShapeError) \<and>
   allocate gauss_jordan_inv init (Array ex_cov) [1 / 2, 1 / 2] [] [] None 2 (1 / 2)
     ''user_confidences'' (Some []) None
   = (init\<lparr>implied_equilibrium_returns := Some (Array ex_implied)\<rparr>, Some ShapeError)"
  by code_simp

text \<open>
  C6, amended. For every square covariance \<open>\<Sigma>\<close> on \<open>N\<close> assets, \<open>N\<close> market weights, risk
  aversion \<open>\<delta>\<close> and \<open>\<tau>\<close>, and asset names that are absent or \<open>N\<close> in number: when
  \<^verbatim>\<open>allocate\<close> is called with zero views (an empty list of views and an empty pick list),
  the call passes validation, and omega is either absent with the method
  \<^verbatim>\<open>prior_variance\<close> or supplied with no elements, the run leaves the posterior expected
  returns equal to the implied equilibrium returns \<open>\<delta>\<Sigma>w\<close> and the posterior covariance
  equal to \<open>\<Sigma> + \<tau>\<Sigma>\<close>, whether or not the weights can be computed after them. The
  inversion routine returns the empty matrix for the empty matrix, as numpy does.
  Nothing is said of zero views in user-confidence mode with omega absent.
\<close>

theorem no_views_posterior:
  fixes risk_aversion tau :: real and self :: BlackLitterman
  assumes "well_formed (table_values covariance)"
    and "nrows (table_values covariance) = N" "ncols (table_values covariance) = N"
    and "frame_ok covariance" "length mcw = N"
    and "case asset_names of None \<Rightarrow> True | Some given \<Rightarrow> length given = N"
    and "linalg_inv (zeros 0 0) = Some (zeros 0 0)"
    and "error_checks [] [] omega_method view_confidences = Inr ()"
    and "case omega of None \<Rightarrow> omega_method = ''prior_variance''
                     | Some om \<Rightarrow> concat (rows om) = []"
    and "allocate linalg_inv self covariance mcw [] [] omega risk_aversion tau omega_method
           view_confidences asset_names = (self', raised)"
  shows "map_option table_values (posterior_expected_returns self')
           = Some (mk 1 N (\<lambda>i j. risk_aversion *
                                   (\<Sum>k<N. entry (table_values covariance) j k * mcw ! k))) \<and>
         map_option flat_values (implied_equilibrium_returns self')
           = Some (map (\<lambda>j. risk_aversion *
                              (\<Sum>k<N. entry (table_values covariance) j k * mcw ! k)) [0..<N]) \<and>
         map_option table_values (posterior_covariance self')
           = Some (mk N N (\<lambda>i j. entry (table_values covariance) i j +
                                   tau * entry (table_values covariance) i j))"
proof -
  define S where "S = entry (table_values covariance)"
  define implied where "implied = m_scale risk_aversion (m_mul N S (\<lambda>i j. mcw ! (i + j)))"
  define R where "R = mk 1 N (\<lambda>i j. implied j 0)"
  define C where "C = mk N N (\<lambda>i j. S i j + tau * S i j)"
  define names where "names = (case asset_names of
      None \<Rightarrow> default_asset_names covariance (length mcw) | Some given \<Rightarrow> given)"
  define s3 where "s3 = self\<lparr>implied_equilibrium_returns := Some (Array (mk N 1 implied)),
      posterior_expected_returns := Some (Array R), posterior_covariance := Some (Array C)\<rparr>"
  have implied: "implied j 0 = risk_aversion * (\<Sum>k<N. S j k * mcw ! k)" for j
    by (simp add: implied_def m_scale_def m_mul_def)
  have run: "(case calculate_max_sharpe_weights linalg_inv C R of
                Inl e \<Rightarrow> (s3, Some e)
              | Inr w \<Rightarrow> post_processing (s3\<lparr>weights := Some (Array w)\<rparr>) names)
             = (self', raised)"
    using no_views_run [where linalg_inv = linalg_inv and risk_aversion = risk_aversion
        and tau = tau and self = self and view_confidences = view_confidences
        and omega = omega and omega_method = omega_method,
        OF assms(1-9)] assms(10)
    unfolding S_def implied_def R_def C_def names_def s3_def by simp
  have "map_option table_values (posterior_expected_returns self') = Some R \<and>
        map_option flat_values (implied_equilibrium_returns self')
          = Some (map (\<lambda>j. implied j 0) [0..<N]) \<and>
        map_option table_values (posterior_covariance self') = Some C"
  proof (cases "calculate_max_sharpe_weights linalg_inv C R")
    case (Inl e)
    then have "self' = s3"
      using run by simp
    then show ?thesis
      by (simp add: s3_def flat_values_def concat_rows_column)
  next
    case (Inr w)
    then have "post_processing (s3\<lparr>weights := Some (Array w)\<rparr>) names = (self', raised)"
      using run by simp
    then show ?thesis
      using post_processing_values [of "s3\<lparr>weights := Some (Array w)\<rparr>" w N implied R C names
          self' raised]
      by (simp add: s3_def)
  qed
  then show ?thesis
    unfolding R_def C_def by (simp add: implied S_def)
qed

theorem no_views_posterior_witness:
  "map_option table_values (posterior_expected_returns
     (fst (allocate gauss_jordan_inv ex_earlier (Array ex_cov) [1 / 2, 1 / 2] [] [] None 2 (1 / 2)
             ''prior_variance'' None None)))
     = Some \<lparr>nrows = 1, ncols = 2, rows = [[3, 4]]\<rparr> \<and>
   map_option flat_values (implied_equilibrium_returns
     (fst (allocate gauss_jordan_inv ex_earlier (Array ex_cov) [1 / 2, 1 / 2] [] [] None 2 (1 / 2)
             ''prior_variance'' None None)))
     = Some [3, 4] \<and>
   map_option table_values (posterior_covariance
     (fst (allocate gauss_jordan_inv ex_earlier (Array ex_cov) [1 / 2, 1 / 2] [] [] None 2 (1 / 2)
             ''prior_variance'' None None)))
     = Some \<lparr>nrows = 2, ncols = 2, rows = [[3, 3 / 2], [3 / 2, 9 / 2]]\<rparr> \<and>
   map_option table_values (posterior_covariance
     (fst (allocate gauss_jordan_inv ex_earlier (Array ex_cov) [1 / 2, 1 / 2] [] []
             (Some (zeros 0 0)) 2 (1 / 2) ''user_confidences'' (Some []) None)))
     = Some \<lparr>nrows = 2, ncols = 2, rows = [[3, 3 / 2], [3 / 2, 9 / 2]]\<rparr>"
proof -
  have computed: "mk 1 2 (\<lambda>i j. 2 *
              (\<Sum>k<2. entry (table_values (Array ex_cov)) j k * [1 / 2, 1 / 2] ! k))
        = \<lparr>nrows = 1, ncols = 2, rows = [[3, 4]]\<rparr>"
    "map (\<lambda>j. 2 *
              (\<Sum>k<2. entry (table_values (Array ex_cov)) j k * [1 / 2, 1 / 2] ! k)) [0..<2]
        = [3, 4]"
    "mk 2 2 (\<lambda>i j. entry (table_values (Array ex_cov)) i j +
                                  1 / 2 * entry (table_values (Array ex_cov)) i j)
        = \<lparr>nrows = 2, ncols = 2, rows = [[3, 3 / 2], [3 / 2, 9 / 2]]\<rparr>"
    by code_simp+
  obtain self' raised where run:
    "allocate gauss_jordan_inv ex_earlier (Array ex_cov) [1 / 2, 1 / 2] [] [] None 2 (1 / 2)
       ''prior_variance'' None None = (self', raised)"
    by (cases "allocate gauss_jordan_inv ex_earlier (Array ex_cov) [1 / 2, 1 / 2] [] [] None 2
       (1 / 2) ''prior_variance'' None None") blast
  have derived: "map_option table_values (posterior_expected_returns self')
          = Some (mk 1 2 (\<lambda>i j. 2 *
              (\<Sum>k<2. entry (table_values (Array ex_cov)) j k * [1 / 2, 1 / 2] ! k))) \<and>
        map_option flat_values (implied_equilibrium_returns self')
          = Some (map (\<lambda>j. 2 *
              (\<Sum>k<2. entry (table_values (Array ex_cov)) j k * [1 / 2, 1 / 2] ! k)) [0..<2]) \<and>
        map_option table_values (posterior_covariance self')
          = Some (mk 2 2 (\<lambda>i j. entry (table_values (Array ex_cov)) i j +
                                  1 / 2 * entry (table_values (Array ex_cov)) i j))"
  proof (rule no_views_posterior [where linalg_inv = gauss_jordan_inv,
        OF _ _ _ _ _ _ _ _ _ run])
    show "well_formed (table_values (Array ex_cov))" "frame_ok (Array ex_cov)"
      "gauss_jordan_inv (zeros 0 0) = Some (zeros 0 0)"
      "error_checks [] [] ''prior_variance'' None = Inr ()"
      by code_simp+
    show "nrows (table_values (Array ex_cov)) = 2" "ncols (table_values (Array ex_cov)) = 2"
      "length [1 / 2, 1 / 2 :: real] = 2"
      "case None of None \<Rightarrow> True | Some given \<Rightarrow> length given = 2"
      "case None of None \<Rightarrow> ''prior_variance'' = ''prior_variance''
                  | Some om \<Rightarrow> concat (rows om) = []"
      by (simp_all add: ex_cov_def)
  qed
  obtain final outcome where supplied:
    "allocate gauss_jordan_inv ex_earlier (Array ex_cov) [1 / 2, 1 / 2] [] []
       (Some (zeros 0 0)) 2 (1 / 2) ''user_confidences'' (Some []) None = (final, outcome)"
    by (cases "allocate gauss_jordan_inv ex_earlier (Array ex_cov) [1 / 2, 1 / 2] [] []
       (Some (zeros 0 0)) 2 (1 / 2) ''user_confidences'' (Some []) None") blast
  have derived': "map_option table_values (posterior_expected_returns final)
          = Some (mk 1 2 (\<lambda>i j. 2 *
              (\<Sum>k<2. entry (table_values (Array ex_cov)) j k * [1 / 2, 1 / 2] ! k))) \<and>
        map_option flat_values (implied_equilibrium_returns final)
          = Some (map (\<lambda>j. 2 *
              (\<Sum>k<2. entry (table_values (Array ex_cov)) j k * [1 / 2, 1 / 2] ! k)) [0..<2]) \<and>
        map_option table_values (posterior_covariance final)
          = Some (mk 2 2 (\<lambda>i j. entry (table_values (Array ex_cov)) i j +
                                  1 / 2 * entry (table_values (Array ex_cov)) i j))"
  proof (rule no_views_posterior [where linalg_inv = gauss_jordan_inv,
        OF _ _ _ _ _ _ _ _ _ supplied])
    show "well_formed (table_values (Array ex_cov))" "frame_ok (Array ex_cov)"
      "gauss_jordan_inv (zeros 0 0) = Some (zeros 0 0)"
      "error_checks [] [] ''user_confidences'' (Some []) = Inr ()"
      by code_simp+
    show "nrows (table_values (Array ex_cov)) = 2" "ncols (table_values (Array ex_cov)) = 2"
      "length [1 / 2, 1 / 2 :: real] = 2"
      "case None of None \<Rightarrow> True | Some given \<Rightarrow> length given = 2"
      "case Some (zeros 0 0) of None \<Rightarrow> ''user_confidences'' = ''prior_variance''
                  | Some om \<Rightarrow> concat (rows om) = []"
      by (simp_all add: ex_cov_def zeros_def mk_def)
  qed
  show ?thesis
    using derived [unfolded computed] derived' [unfolded computed]
    by (simp add: run supplied)
qed

end
